theory Spec2Isabelle
  imports Complex_Main
begin

section \<open>The dust shaders of expo-disintegrate-effect\<close>

text \<open>
  The repository holds two SkSL fragment shaders that render an image dissolving into
  particles: \<open>DUST_SHADER\<close> (component \<open>DustSnapGL\<close>, the refined variant) and
  \<open>DUST_SNAP_SHADER\<close> (component \<open>BlowAwayImage\<close>, the earlier variant). Both are pure
  functions of the fragment coordinate and the uniforms.

  The embedding reads SkSL \<open>float\<close> and \<open>half\<close> as the real numbers: \<open>fract\<close> is
  \<^const>\<open>frac\<close>, \<open>floor\<close> is \<^const>\<open>floor\<close>, \<open>pow\<close> is \<^const>\<open>powr\<close>. Rounding, infinities
  and NaN are outside the model, and so is a quotient by zero: where the value of
  \<open>t / maxLife\<close> or of \<open>1 / particleSize\<close> matters to a theorem, the divisor is assumed
  or shown to be positive. A \<open>float2\<close> is a pair, the sampled child shader \<open>image\<close> is a
  function from a coordinate to a colour, and a \<open>half4\<close> is its rgb triple with its alpha.
\<close>

type_synonym float2 = "real \<times> real"

datatype half4 = Half4 (col_rgb: "real \<times> real \<times> real") (col_a: real)

type_synonym image = "float2 \<Rightarrow> half4"

definition transparent :: half4 where
  "transparent = Half4 (0, 0, 0) 0"

definition add2 :: "float2 \<Rightarrow> float2 \<Rightarrow> float2" where
  "add2 p q = (fst p + fst q, snd p + snd q)"

definition sub2 :: "float2 \<Rightarrow> float2 \<Rightarrow> float2" where
  "sub2 p q = (fst p - fst q, snd p - snd q)"

definition scale2 :: "float2 \<Rightarrow> real \<Rightarrow> float2" where
  "scale2 p k = (fst p * k, snd p * k)"

definition dot2 :: "float2 \<Rightarrow> float2 \<Rightarrow> real" where
  "dot2 p q = fst p * fst q + snd p * snd q"

subsection \<open>The loop over the candidate window\<close>

text \<open>
  Both shaders run two nested \<open>for\<close> loops over integer offsets, the first index outermost.
  The body either \<open>continue\<close>s (\<open>None\<close>) or \<open>return\<close>s a colour (\<open>Some\<close>); after the loops the
  shader returns \<open>half4(0.0)\<close>.
\<close>

definition window :: "int \<Rightarrow> int \<Rightarrow> (int \<times> int) list" where
  "window radX radY = concat (map (\<lambda>i. map (\<lambda>j. (i, j)) [- radY..radY]) [- radX..radX])"

fun scan :: "('c \<Rightarrow> half4 option) \<Rightarrow> 'c list \<Rightarrow> half4" where
  "scan body [] = transparent"
| "scan body (c # cs) = (case body c of Some col \<Rightarrow> col | None \<Rightarrow> scan body cs)"

subsection \<open>DUST\_SHADER (components/DustSnapGL)\<close>

record uniforms =
  time :: real
  imageSize :: float2
  imageOffset :: float2
  canvasOffset :: float2
  particleSize :: real
  seed :: real
  isCircle :: int
  timeScale :: real
  maxTime :: real
  windSpeed :: real
  verticalSpread :: real
  turbulence :: real
  burstStrength :: real
  floatAmp :: real
  reverseWindMult :: real
  lifetimeMin :: real
  lifetimeRange :: real
  fadeStart :: real
  driftX :: real
  driftY :: real

definition SEARCH_RAD :: int where
  "SEARCH_RAD = 4"

definition hash :: "float2 \<Rightarrow> real" where
  "hash p = frac (sin (dot2 p (127.1, 311.7)) * 43758.5)"

definition maxLife :: "uniforms \<Rightarrow> real \<Rightarrow> real" where
  "maxLife u rnd1 = lifetimeMin u + rnd1 * lifetimeRange u"

definition lifeRatio :: "uniforms \<Rightarrow> real \<Rightarrow> real \<Rightarrow> real" where
  "lifeRatio u t rnd1 = t / maxLife u rnd1"

definition startEase :: "real \<Rightarrow> real" where
  "startEase lr = min (lr * 10.0) 1.0"

text \<open>Lines 141 to 172: the five motion terms and their sum, scaled by \<open>startEase\<close>.\<close>

definition movement :: "uniforms \<Rightarrow> real \<Rightarrow> real \<Rightarrow> real \<Rightarrow> real \<Rightarrow> real \<Rightarrow> float2" where
  "movement u t rnd1 rnd2 rnd3 lr =
    (let windX = - windSpeed u * t * (0.7 + rnd1 * 0.6);
         verticalDir = rnd2 * 2.0 - 1.0;
         windY = verticalDir * verticalSpread u * t * (0.5 + rnd3 * 0.5);
         turbPhase = t * 0.07 + rnd3 * 20.0;
         turbX = sin turbPhase * turbulence u * rnd1;
         turbY = cos turbPhase * turbulence u * rnd2;
         burstAngle = rnd3 * 6.283;
         burstDecay = 1.0 / (1.0 + lr * 5.0);
         burstX = cos burstAngle * burstStrength u * burstDecay;
         burstY = sin burstAngle * burstStrength u * burstDecay;
         floatPhase = t * 0.05 + rnd1 * 10.0;
         floatX = sin floatPhase * floatAmp u * 0.5;
         floatY = cos (floatPhase * 0.7) * floatAmp u;
         driftDirX = (rnd1 - 0.5) * 2.0;
         driftDirY = (rnd2 - 0.5) * 2.0;
         tSq = t * t * 0.01;
         continuousDriftX = driftDirX * driftX u * tSq;
         continuousDriftY = driftDirY * driftY u * tSq
     in scale2 (windX + turbX + burstX + floatX + continuousDriftX,
                windY + turbY + burstY + floatY + continuousDriftY) (startEase lr))"

definition inside :: "uniforms \<Rightarrow> float2 \<Rightarrow> bool" where
  "inside u diff =
    (let halfSize = particleSize u * 0.5;
         halfSizeSq = halfSize * halfSize
     in if isCircle u = 1 then dot2 diff diff \<le> halfSizeSq
        else \<bar>fst diff\<bar> \<le> halfSize \<and> \<bar>snd diff\<bar> \<le> halfSize)"

text \<open>Lines 182 to 185: the fade of a particle, squared.\<close>

definition fade :: "uniforms \<Rightarrow> real \<Rightarrow> real" where
  "fade u lr =
    (let alpha = (if lr > fadeStart u then 1.0 - (lr - fadeStart u) / (1.0 - fadeStart u)
                  else 1.0)
     in alpha * alpha)"

definition cellCenter :: "uniforms \<Rightarrow> float2 \<Rightarrow> float2" where
  "cellCenter u cellId =
    (let halfSize = particleSize u * 0.5
     in add2 (scale2 cellId (particleSize u)) (halfSize, halfSize))"

definition cellHash :: "uniforms \<Rightarrow> float2 \<Rightarrow> real" where
  "cellHash u cellId = hash (add2 cellId (seed u, seed u))"

text \<open>
  Lines 128 to 193: what the loop body does with a cell once its id is known. The particle of
  the cell is placed at \<open>imageOffset + cellCenter + movement\<close> and the colour is the image at
  the cell's centre, not at the displaced position.
\<close>

definition particlePos :: "uniforms \<Rightarrow> real \<Rightarrow> float2 \<Rightarrow> float2" where
  "particlePos u t cellId =
    (let h = cellHash u cellId;
         rnd1 = h;
         rnd2 = frac (h * 7.243);
         rnd3 = frac (h * 13.759)
     in add2 (add2 (imageOffset u) (cellCenter u cellId))
             (movement u t rnd1 rnd2 rnd3 (lifeRatio u t rnd1)))"

definition particle :: "image \<Rightarrow> uniforms \<Rightarrow> float2 \<Rightarrow> real \<Rightarrow> float2 \<Rightarrow> half4 option" where
  "particle img u screenCoord t cellId =
    (let rnd1 = cellHash u cellId;
         lr = lifeRatio u t rnd1
     in if lr \<ge> 1.0 then None
        else
          let diff = sub2 screenCoord (particlePos u t cellId)
          in if inside u diff then
               (let alpha = fade u lr
                in if alpha > 0.01 then
                     (let color = img (cellCenter u cellId)
                      in if col_a color > 0.1
                         then Some (Half4 (col_rgb color) (col_a color * alpha))
                         else None)
                   else None)
             else None)"

text \<open>Lines 122 to 127: the bounds test of a candidate offset and the id of its cell.\<close>

definition imgLocalPos :: "uniforms \<Rightarrow> float2 \<Rightarrow> int \<times> int \<Rightarrow> float2" where
  "imgLocalPos u base ij =
    add2 base (scale2 (of_int (fst ij), of_int (snd ij)) (particleSize u))"

definition outOfImage :: "uniforms \<Rightarrow> float2 \<Rightarrow> bool" where
  "outOfImage u p \<longleftrightarrow>
    fst p < 0.0 \<or> fst p \<ge> fst (imageSize u) \<or> snd p < 0.0 \<or> snd p \<ge> snd (imageSize u)"

definition cellIdOf :: "uniforms \<Rightarrow> float2 \<Rightarrow> float2" where
  "cellIdOf u p =
    (let invPS = 1.0 / particleSize u
     in (of_int \<lfloor>fst p * invPS\<rfloor>, of_int \<lfloor>snd p * invPS\<rfloor>))"

definition candidate ::
  "image \<Rightarrow> uniforms \<Rightarrow> float2 \<Rightarrow> real \<Rightarrow> float2 \<Rightarrow> int \<times> int \<Rightarrow> half4 option" where
  "candidate img u screenCoord t base ij =
    (let p = imgLocalPos u base ij
     in if outOfImage u p then None
        else particle img u screenCoord t (cellIdOf u p))"

definition baseImgPos :: "uniforms \<Rightarrow> float2 \<Rightarrow> float2" where
  "baseImgPos u fragCoord =
    (let screenCoord = add2 fragCoord (canvasOffset u);
         t = time u * timeScale u;
         reverseWindX = reverseWindMult u * t
     in sub2 (add2 screenCoord (reverseWindX, 0.0)) (imageOffset u))"

definition DUST_SHADER_main :: "image \<Rightarrow> uniforms \<Rightarrow> float2 \<Rightarrow> half4" where
  "DUST_SHADER_main img u fragCoord =
    (let screenCoord = add2 fragCoord (canvasOffset u);
         t = time u * timeScale u
     in if t > maxTime u then transparent
        else scan (candidate img u screenCoord t (baseImgPos u fragCoord))
               (window SEARCH_RAD SEARCH_RAD))"

subsection \<open>DUST\_SNAP\_SHADER (BlowAwayImage)\<close>

record snap_uniforms =
  snap_time :: real
  snap_imageSize :: float2
  snap_imageOffset :: float2
  snap_canvasSize :: float2
  snap_particleSize :: real
  snap_seed :: real

definition MAX_SEARCH_X :: int where
  "MAX_SEARCH_X = 8"

definition MAX_SEARCH_Y :: int where
  "MAX_SEARCH_Y = 5"

definition snap_hash :: "float2 \<Rightarrow> real" where
  "snap_hash p =
    (let x = frac (fst p * 0.1031);
         y = frac (snd p * 0.1031);
         z = frac (fst p * 0.1031);
         d = x * (y + 33.33) + y * (z + 33.33) + z * (x + 33.33)
     in frac (((x + d) + (y + d)) * (z + d)))"

definition snap_outOfImage :: "snap_uniforms \<Rightarrow> float2 \<Rightarrow> bool" where
  "snap_outOfImage u p \<longleftrightarrow>
    fst p < 0.0 \<or> fst p \<ge> fst (snap_imageSize u) \<or>
    snd p < 0.0 \<or> snd p \<ge> snd (snap_imageSize u)"

definition snap_cellIdOf :: "snap_uniforms \<Rightarrow> float2 \<Rightarrow> float2" where
  "snap_cellIdOf u p =
    (of_int \<lfloor>fst p / snap_particleSize u\<rfloor>, of_int \<lfloor>snd p / snap_particleSize u\<rfloor>)"

definition snap_cellCenter :: "snap_uniforms \<Rightarrow> float2 \<Rightarrow> float2" where
  "snap_cellCenter u cellId =
    add2 (scale2 cellId (snap_particleSize u))
         (snap_particleSize u * 0.5, snap_particleSize u * 0.5)"

definition snap_lifeRatio :: "real \<Rightarrow> real \<Rightarrow> real" where
  "snap_lifeRatio t rndSeed = (let maxLife = 60.0 + rndSeed * 60.0 in t / maxLife)"

definition snap_particlePos :: "snap_uniforms \<Rightarrow> real \<Rightarrow> float2 \<Rightarrow> float2" where
  "snap_particlePos u t cellId =
    (let rndSeed = snap_hash (add2 cellId (snap_seed u, snap_seed u));
         windSpeed = 10.0 + rndSeed * 4.0;
         windX = - windSpeed * t - (t * t * 0.02);
         wave = sin (t * 0.12 + rndSeed * 15.0) * 6.0;
         lift = (- 1.0 + (rndSeed - 0.5) * 2.5) * t;
         windY = lift + wave
     in add2 (add2 (snap_imageOffset u) (snap_cellCenter u cellId)) (windX, windY))"

definition snap_inside :: "snap_uniforms \<Rightarrow> float2 \<Rightarrow> bool" where
  "snap_inside u diff =
    (let halfSize = snap_particleSize u * 0.5
     in \<bar>fst diff\<bar> \<le> halfSize \<and> \<bar>snd diff\<bar> \<le> halfSize)"

definition snap_fade :: "real \<Rightarrow> real" where
  "snap_fade lr = (if lr > 0.3 then (1.0 - (lr - 0.3) / 0.7) powr 1.5 else 1.0)"

definition snap_particle ::
  "image \<Rightarrow> snap_uniforms \<Rightarrow> float2 \<Rightarrow> real \<Rightarrow> float2 \<Rightarrow> half4 option" where
  "snap_particle img u fragCoord t cellId =
    (let rndSeed = snap_hash (add2 cellId (snap_seed u, snap_seed u));
         lr = snap_lifeRatio t rndSeed
     in if lr \<ge> 1.0 then None
        else
          let diff = sub2 fragCoord (snap_particlePos u t cellId)
          in if snap_inside u diff then
               (let alpha = snap_fade lr
                in if alpha > 0.01 then
                     (let color = img (snap_cellCenter u cellId)
                      in Some (Half4 (col_rgb color) (col_a color * alpha)))
                   else None)
             else None)"

definition snap_imgLocalPos :: "snap_uniforms \<Rightarrow> float2 \<Rightarrow> int \<times> int \<Rightarrow> float2" where
  "snap_imgLocalPos u base ij =
    add2 base (scale2 (of_int (fst ij), of_int (snd ij)) (snap_particleSize u))"

definition snap_candidate ::
  "image \<Rightarrow> snap_uniforms \<Rightarrow> float2 \<Rightarrow> real \<Rightarrow> float2 \<Rightarrow> int \<times> int \<Rightarrow> half4 option" where
  "snap_candidate img u fragCoord t base ij =
    (let p = snap_imgLocalPos u base ij
     in if snap_outOfImage u p then None
        else snap_particle img u fragCoord t (snap_cellIdOf u p))"

definition snap_baseImgPos :: "snap_uniforms \<Rightarrow> float2 \<Rightarrow> float2" where
  "snap_baseImgPos u fragCoord =
    (let t = snap_time u * 60.0;
         reverseWindX = 12.0 * t + (t * t * 0.02);
         reverseWindY = 1.5 * t;
         estimatedSource = add2 fragCoord (reverseWindX, reverseWindY)
     in sub2 estimatedSource (snap_imageOffset u))"

definition DUST_SNAP_SHADER_main :: "image \<Rightarrow> snap_uniforms \<Rightarrow> float2 \<Rightarrow> half4" where
  "DUST_SNAP_SHADER_main img u fragCoord =
    (let t = snap_time u * 60.0
     in if t > 180.0 then transparent
        else scan (snap_candidate img u fragCoord t (snap_baseImgPos u fragCoord))
               (window MAX_SEARCH_X MAX_SEARCH_Y))"

subsection \<open>The components that feed the shaders\<close>

text \<open>\<open>ANIMATION_CONFIG\<close> of DustSnapGL.\<close>

definition DURATION_MS :: real where "DURATION_MS = 1000"
definition TIME_SCALE :: real where "TIME_SCALE = 22.0"
definition MAX_TIME :: real where "MAX_TIME = 250.0"
definition WIND_SPEED :: real where "WIND_SPEED = 12"
definition VERTICAL_SPREAD :: real where "VERTICAL_SPREAD = 60.0"
definition TURBULENCE :: real where "TURBULENCE = 35.0"
definition BURST_STRENGTH :: real where "BURST_STRENGTH = 45.0"
definition FLOAT_AMPLITUDE :: real where "FLOAT_AMPLITUDE = 25.0"
definition REVERSE_WIND_MULTIPLIER :: real where "REVERSE_WIND_MULTIPLIER = 6.0"
definition LIFETIME_MIN :: real where "LIFETIME_MIN = 180.0"
definition LIFETIME_RANGE :: real where "LIFETIME_RANGE = 100.0"
definition FADE_START :: real where "FADE_START = 0.92"
definition DRIFT_X :: real where "DRIFT_X = 3.5"
definition DRIFT_Y :: real where "DRIFT_Y = 2.5"

datatype particleShape = circle | square

record imageLayout =
  layout_x :: real
  layout_y :: real
  layout_width :: real
  layout_height :: real

text \<open>
  The \<open>uniforms\<close> derived value of DustSnapGL (lines 326 to 350). The canvas covers the whole
  screen, so \<open>canvasBounds.x\<close> and \<open>canvasBounds.y\<close> are 0. \<open>pieceSize\<close> is passed on
  as it is.
\<close>

definition DustSnapGL_uniforms ::
  "real \<Rightarrow> imageLayout \<Rightarrow> real \<Rightarrow> real \<Rightarrow> particleShape \<Rightarrow> uniforms" where
  "DustSnapGL_uniforms animationTime layout pieceSize seedValue shape =
    \<lparr> time = animationTime,
      imageSize = (layout_width layout, layout_height layout),
      imageOffset = (layout_x layout, layout_y layout),
      canvasOffset = (0, 0),
      particleSize = pieceSize,
      seed = seedValue,
      isCircle = (if shape = circle then 1 else 0),
      timeScale = TIME_SCALE,
      maxTime = MAX_TIME,
      windSpeed = WIND_SPEED,
      verticalSpread = VERTICAL_SPREAD,
      turbulence = TURBULENCE,
      burstStrength = BURST_STRENGTH,
      floatAmp = FLOAT_AMPLITUDE,
      reverseWindMult = REVERSE_WIND_MULTIPLIER,
      lifetimeMin = LIFETIME_MIN,
      lifetimeRange = LIFETIME_RANGE,
      fadeStart = FADE_START,
      driftX = DRIFT_X,
      driftY = DRIFT_Y \<rparr>"

text \<open>
  The target of the time ramp of DustSnapGL (lines 289 to 293):
  \<open>withTiming(duration / 1000, ...)\<close> with \<open>duration = DURATION_MS\<close>.
\<close>

definition rampEnd :: real where
  "rampEnd = DURATION_MS / 1000"

text \<open>
  The \<open>uniforms\<close> derived value of BlowAwayImage (lines 212 to 222 of its file):
  the particle size is \<open>Math.max(2, particleSize)\<close>.
\<close>

definition BlowAwayImage_uniforms ::
  "real \<Rightarrow> real \<Rightarrow> real \<Rightarrow> real \<Rightarrow> real \<Rightarrow> real \<Rightarrow> real \<Rightarrow> real \<Rightarrow> real \<Rightarrow> snap_uniforms" where
  "BlowAwayImage_uniforms animationTime width height imageOffsetX imageOffsetY
      screenWidth screenHeight particleSize' seed' =
    \<lparr> snap_time = animationTime,
      snap_imageSize = (width, height),
      snap_imageOffset = (imageOffsetX, imageOffsetY),
      snap_canvasSize = (screenWidth, screenHeight),
      snap_particleSize = max 2 particleSize',
      snap_seed = seed' \<rparr>"

subsection \<open>The motion model in the words of the specification\<close>

text \<open>
  Section 4.2 of the specification, steps 2 to 9, written down as the specification gives
  them: the wind, turbulence, burst, float and drift terms, their sum, and the factor
  \<open>startEase = min(lifeRatio * 10, 1)\<close>. It is compared with \<^const>\<open>movement\<close> below.
\<close>

definition spec_displacement :: "uniforms \<Rightarrow> real \<Rightarrow> real \<Rightarrow> real \<Rightarrow> real \<Rightarrow> float2" where
  "spec_displacement u t h rnd2 rnd3 =
    (let lifeRatio' = t / (lifetimeMin u + h * lifetimeRange u);
         startEase' = min (lifeRatio' * 10) 1;
         windX = - windSpeed u * t * (0.7 + 0.6 * h);
         verticalDir = 2 * rnd2 - 1;
         windY = verticalDir * verticalSpread u * t * (0.5 + 0.5 * rnd3);
         phi_turb = 0.07 * t + 20 * rnd3;
         turbX = sin phi_turb * turbulence u * h;
         turbY = cos phi_turb * turbulence u * rnd2;
         theta = 6.283 * rnd3;
         burstMagnitude = burstStrength u / (1 + 5 * lifeRatio');
         burstX = burstMagnitude * cos theta;
         burstY = burstMagnitude * sin theta;
         phi_float = 0.05 * t + 10 * h;
         floatX = sin phi_float * floatAmp u * 0.5;
         floatY = cos (0.7 * phi_float) * floatAmp u;
         driftTermX = (2 * h - 1) * (driftX u * t\<^sup>2 * 0.01);
         driftTermY = (2 * rnd2 - 1) * (driftY u * t\<^sup>2 * 0.01)
     in ((windX + turbX + burstX + floatX + driftTermX) * startEase',
         (windY + turbY + burstY + floatY + driftTermY) * startEase'))"

subsection \<open>The first match in the words of the specification\<close>

text \<open>
  The order of the two nested loops on the offsets \<open>(i, j)\<close>: \<open>i\<close>, the offset along x, is
  the outer index and \<open>j\<close>, the offset along y, the inner one.
\<close>

definition rowMajor :: "int \<times> int \<Rightarrow> int \<times> int \<Rightarrow> bool" where
  "rowMajor a b \<longleftrightarrow> fst a < fst b \<or> (fst a = fst b \<and> snd a < snd b)"

text \<open>
  Section 4.3, step 5: a candidate counts when its image-local position is inside the image,
  its particle covers the pixel, it has not expired, its fade is above the threshold 0.01,
  and the source colour at the rest centre of its cell has an alpha above 0.1. The colour
  drawn for it is that source colour with its alpha multiplied by the fade.
\<close>

definition qualifies ::
  "image \<Rightarrow> uniforms \<Rightarrow> float2 \<Rightarrow> real \<Rightarrow> float2 \<Rightarrow> int \<times> int \<Rightarrow> bool" where
  "qualifies img u screenCoord t base ij \<longleftrightarrow>
    (let p = imgLocalPos u base ij;
         cellId = cellIdOf u p;
         lr = lifeRatio u t (cellHash u cellId)
     in \<not> outOfImage u p
        \<and> inside u (sub2 screenCoord (particlePos u t cellId))
        \<and> lr < 1
        \<and> fade u lr > 0.01
        \<and> col_a (img (cellCenter u cellId)) > 0.1)"

definition drawn :: "image \<Rightarrow> uniforms \<Rightarrow> real \<Rightarrow> float2 \<Rightarrow> int \<times> int \<Rightarrow> half4" where
  "drawn img u t base ij =
    (let cellId = cellIdOf u (imgLocalPos u base ij);
         color = img (cellCenter u cellId)
     in Half4 (col_rgb color) (col_a color * fade u (lifeRatio u t (cellHash u cellId))))"

text \<open>
  The same for the earlier shader, whose body has no test on the source alpha: the tests it
  makes (\<open>snap_qualifies\<close>), the test of the specification that it leaves out
  (\<open>snap_opaque\<close>), and both together (\<open>snap_claimed\<close>).
\<close>

definition snap_cellLifeRatio :: "snap_uniforms \<Rightarrow> real \<Rightarrow> float2 \<Rightarrow> real" where
  "snap_cellLifeRatio u t cellId =
    snap_lifeRatio t (snap_hash (add2 cellId (snap_seed u, snap_seed u)))"

definition snap_qualifies ::
  "snap_uniforms \<Rightarrow> float2 \<Rightarrow> real \<Rightarrow> float2 \<Rightarrow> int \<times> int \<Rightarrow> bool" where
  "snap_qualifies u fragCoord t base ij \<longleftrightarrow>
    (let p = snap_imgLocalPos u base ij;
         cellId = snap_cellIdOf u p;
         lr = snap_cellLifeRatio u t cellId
     in \<not> snap_outOfImage u p
        \<and> snap_inside u (sub2 fragCoord (snap_particlePos u t cellId))
        \<and> lr < 1
        \<and> snap_fade lr > 0.01)"

definition snap_opaque :: "image \<Rightarrow> snap_uniforms \<Rightarrow> float2 \<Rightarrow> int \<times> int \<Rightarrow> bool" where
  "snap_opaque img u base ij \<longleftrightarrow>
    col_a (img (snap_cellCenter u (snap_cellIdOf u (snap_imgLocalPos u base ij)))) > 0.1"

definition snap_claimed ::
  "image \<Rightarrow> snap_uniforms \<Rightarrow> float2 \<Rightarrow> real \<Rightarrow> float2 \<Rightarrow> int \<times> int \<Rightarrow> bool" where
  "snap_claimed img u fragCoord t base ij \<longleftrightarrow>
    snap_qualifies u fragCoord t base ij \<and> snap_opaque img u base ij"

definition snap_drawn :: "image \<Rightarrow> snap_uniforms \<Rightarrow> real \<Rightarrow> float2 \<Rightarrow> int \<times> int \<Rightarrow> half4" where
  "snap_drawn img u t base ij =
    (let cellId = snap_cellIdOf u (snap_imgLocalPos u base ij);
         color = img (snap_cellCenter u cellId)
     in Half4 (col_rgb color) (col_a color * snap_fade (snap_cellLifeRatio u t cellId)))"

text \<open>
  What is left of the tests of \<open>DUST_SHADER\<close> when no cell has expired and no fade has
  begun: the candidate lies inside the image, its particle covers the pixel, and the source
  alpha is above 0.1.
\<close>

definition coveringCandidate ::
  "image \<Rightarrow> uniforms \<Rightarrow> float2 \<Rightarrow> real \<Rightarrow> float2 \<Rightarrow> int \<times> int \<Rightarrow> bool" where
  "coveringCandidate img u screenCoord t base ij \<longleftrightarrow>
    (let p = imgLocalPos u base ij;
         cellId = cellIdOf u p
     in \<not> outOfImage u p
        \<and> inside u (sub2 screenCoord (particlePos u t cellId))
        \<and> col_a (img (cellCenter u cellId)) > 0.1)"

subsection \<open>Inputs for the worked examples\<close>

definition whiteImage :: image where
  "whiteImage = (\<lambda>p. Half4 (1, 1, 1) 1)"

definition gradientImage :: image where
  "gradientImage = (\<lambda>p. Half4 (fst p, snd p, 0) 1)"

definition twoToneImage :: image where
  "twoToneImage = (\<lambda>p. if fst p < 100 then Half4 (1, 0, 0) 0.05 else Half4 (0, 0, 1) 1)"

definition layout8 :: imageLayout where
  "layout8 = \<lparr>layout_x = 0, layout_y = 0, layout_width = 8, layout_height = 8\<rparr>"

definition layoutFlat :: imageLayout where
  "layoutFlat = \<lparr>layout_x = 0, layout_y = 0, layout_width = 0, layout_height = 100\<rparr>"

definition layout300 :: imageLayout where
  "layout300 = \<lparr>layout_x = 60, layout_y = 400, layout_width = 300, layout_height = 300\<rparr>"

section \<open>Properties\<close>

subsection \<open>The loop and the window\<close>

lemma scan_all_None: "(\<And>c. c \<in> set cs \<Longrightarrow> body c = None) \<Longrightarrow> scan body cs = transparent"
  by (induction cs) simp_all

lemma scan_first_match:
  assumes "\<And>c. body c = (if P c then Some (f c) else None)"
  shows "scan body cs = (case find P cs of None \<Rightarrow> transparent | Some c \<Rightarrow> f c)"
  by (induction cs) (simp_all add: assms)

lemma scan_unique:
  "c0 \<in> set cs \<Longrightarrow> body c0 = Some v \<Longrightarrow> (\<And>c. c \<in> set cs \<Longrightarrow> c \<noteq> c0 \<Longrightarrow> body c = None)
    \<Longrightarrow> scan body cs = v"
proof (induction cs)
  case Nil
  then show ?case by simp
next
  case (Cons a cs)
  show ?case
  proof (cases "a = c0")
    case True
    then show ?thesis using Cons.prems by simp
  next
    case False
    then have "body a = None" "c0 \<in> set cs" using Cons.prems by auto
    then show ?thesis using Cons by simp
  qed
qed

lemma find_first:
  "sorted_wrt R xs \<Longrightarrow> x \<in> set xs \<Longrightarrow> P x \<Longrightarrow> (\<And>y. y \<in> set xs \<Longrightarrow> R y x \<Longrightarrow> \<not> P y)
    \<Longrightarrow> find P xs = Some x"
proof (induction xs)
  case Nil
  then show ?case by simp
next
  case (Cons a xs)
  show ?case
  proof (cases "a = x")
    case True
    then show ?thesis using Cons.prems by simp
  next
    case False
    then have "R a x" "x \<in> set xs" using Cons.prems by auto
    then have "\<not> P a" using Cons.prems by simp
    moreover have "find P xs = Some x"
      using Cons.prems \<open>x \<in> set xs\<close> by (intro Cons.IH) auto
    ultimately show ?thesis by simp
  qed
qed

lemma find_Some_holds: "find P xs = Some x \<Longrightarrow> P x \<and> x \<in> set xs"
  by (induction xs) (auto split: if_splits)

lemma find_None_none: "find P xs = None \<Longrightarrow> x \<in> set xs \<Longrightarrow> \<not> P x"
  by (induction xs) (auto split: if_splits)

lemma set_window: "set (window rx ry) = {- rx..rx} \<times> {- ry..ry}"
  by (auto simp: window_def)

lemma window_sorted: "sorted_wrt rowMajor (window rx ry)"
proof -
  have blk: "sorted_wrt rowMajor (map (\<lambda>j. (i, j)) js)" if "sorted_wrt (<) js" for i js
    using that by (simp add: sorted_wrt_map rowMajor_def)
  have "sorted_wrt rowMajor (concat (map (\<lambda>i. map (\<lambda>j. (i, j)) js) is))"
    if "sorted_wrt (<) is" "sorted_wrt (<) js" for "is" js
    using that
  proof (induction "is")
    case Nil
    then show ?case by simp
  next
    case (Cons i "is")
    have "sorted_wrt rowMajor (map (\<lambda>j. (i, j)) js)"
      using Cons.prems blk by simp
    moreover have "sorted_wrt rowMajor (concat (map (\<lambda>i. map (\<lambda>j. (i, j)) js) is))"
      using Cons by simp
    moreover have "\<forall>a \<in> set (map (\<lambda>j. (i, j)) js).
        \<forall>b \<in> set (concat (map (\<lambda>i. map (\<lambda>j. (i, j)) js) is)). rowMajor a b"
      using Cons.prems by (auto simp: rowMajor_def)
    ultimately show ?case by (simp add: sorted_wrt_append)
  qed
  then show ?thesis by (simp add: window_def)
qed

subsection \<open>The uniforms built by the components\<close>

lemma DustSnapGL_uniforms_simps:
  "time (DustSnapGL_uniforms tm layout ps sd shape) = tm"
  "imageSize (DustSnapGL_uniforms tm layout ps sd shape) = (layout_width layout, layout_height layout)"
  "imageOffset (DustSnapGL_uniforms tm layout ps sd shape) = (layout_x layout, layout_y layout)"
  "canvasOffset (DustSnapGL_uniforms tm layout ps sd shape) = (0, 0)"
  "particleSize (DustSnapGL_uniforms tm layout ps sd shape) = ps"
  "seed (DustSnapGL_uniforms tm layout ps sd shape) = sd"
  "isCircle (DustSnapGL_uniforms tm layout ps sd shape) = (if shape = circle then 1 else 0)"
  "timeScale (DustSnapGL_uniforms tm layout ps sd shape) = 22"
  "maxTime (DustSnapGL_uniforms tm layout ps sd shape) = 250"
  "windSpeed (DustSnapGL_uniforms tm layout ps sd shape) = 12"
  "verticalSpread (DustSnapGL_uniforms tm layout ps sd shape) = 60"
  "turbulence (DustSnapGL_uniforms tm layout ps sd shape) = 35"
  "burstStrength (DustSnapGL_uniforms tm layout ps sd shape) = 45"
  "floatAmp (DustSnapGL_uniforms tm layout ps sd shape) = 25"
  "reverseWindMult (DustSnapGL_uniforms tm layout ps sd shape) = 6"
  "lifetimeMin (DustSnapGL_uniforms tm layout ps sd shape) = 180"
  "lifetimeRange (DustSnapGL_uniforms tm layout ps sd shape) = 100"
  "fadeStart (DustSnapGL_uniforms tm layout ps sd shape) = 0.92"
  "driftX (DustSnapGL_uniforms tm layout ps sd shape) = 3.5"
  "driftY (DustSnapGL_uniforms tm layout ps sd shape) = 2.5"
  by (simp_all add: DustSnapGL_uniforms_def TIME_SCALE_def MAX_TIME_def WIND_SPEED_def
      VERTICAL_SPREAD_def TURBULENCE_def BURST_STRENGTH_def FLOAT_AMPLITUDE_def
      REVERSE_WIND_MULTIPLIER_def LIFETIME_MIN_def LIFETIME_RANGE_def FADE_START_def
      DRIFT_X_def DRIFT_Y_def)

lemma BlowAwayImage_uniforms_simps:
  "snap_time (BlowAwayImage_uniforms tm w h ox oy sw sh ps sd) = tm"
  "snap_imageSize (BlowAwayImage_uniforms tm w h ox oy sw sh ps sd) = (w, h)"
  "snap_imageOffset (BlowAwayImage_uniforms tm w h ox oy sw sh ps sd) = (ox, oy)"
  "snap_canvasSize (BlowAwayImage_uniforms tm w h ox oy sw sh ps sd) = (sw, sh)"
  "snap_particleSize (BlowAwayImage_uniforms tm w h ox oy sw sh ps sd) = max 2 ps"
  "snap_seed (BlowAwayImage_uniforms tm w h ox oy sw sh ps sd) = sd"
  by (simp_all add: BlowAwayImage_uniforms_def)

subsection \<open>Cells, hashes and lifetimes\<close>

lemma hash_range: "0 \<le> hash p \<and> hash p < 1"
  by (simp add: hash_def frac_lt_1)

lemma cellHash_range: "0 \<le> cellHash u cellId \<and> cellHash u cellId < 1"
  by (simp add: cellHash_def hash_range)

lemma maxLife_pos:
  "lifetimeMin u > 0 \<Longrightarrow> lifetimeRange u \<ge> 0 \<Longrightarrow> 0 \<le> h \<Longrightarrow> maxLife u h > 0"
  by (simp add: maxLife_def add_pos_nonneg)

lemma particle_expired: "lifeRatio u t (cellHash u cellId) \<ge> 1 \<Longrightarrow> particle img u sc t cellId = None"
  by (simp add: particle_def Let_def)

lemma candidate_outOfImage:
  "outOfImage u (imgLocalPos u base ij) \<Longrightarrow> candidate img u screenCoord t base ij = None"
  by (simp add: candidate_def Let_def)

lemma candidate_qualifies:
  "candidate img u sc t base ij =
    (if qualifies img u sc t base ij then Some (drawn img u t base ij) else None)"
  by (auto simp: candidate_def particle_def qualifies_def drawn_def Let_def)

lemma snap_candidate_qualifies:
  "snap_candidate img u fc t base ij =
    (if snap_qualifies u fc t base ij then Some (snap_drawn img u t base ij) else None)"
  by (auto simp: snap_candidate_def snap_particle_def snap_qualifies_def snap_drawn_def
      snap_cellLifeRatio_def Let_def)

subsection \<open>The shaders at time 0\<close>

lemma lifeRatio_at_zero: "lifeRatio u 0 h = 0"
  by (simp add: lifeRatio_def)

lemma movement_at_zero: "movement u 0 rnd1 rnd2 rnd3 (lifeRatio u 0 rnd1) = (0, 0)"
  by (simp add: movement_def lifeRatio_at_zero startEase_def scale2_def Let_def)

lemma particlePos_at_zero: "particlePos u 0 cellId = add2 (imageOffset u) (cellCenter u cellId)"
  by (simp add: particlePos_def Let_def movement_at_zero add2_def)

lemma baseImgPos_at_zero:
  "time u = 0 \<Longrightarrow> baseImgPos u fragCoord = sub2 (add2 fragCoord (canvasOffset u)) (imageOffset u)"
  by (simp add: baseImgPos_def Let_def add2_def sub2_def)

lemma snap_at_rest:
  "snap_cellLifeRatio u 0 cellId = 0"
  "fst (snap_particlePos u 0 cellId) = fst (snap_imageOffset u) + fst (snap_cellCenter u cellId)"
  "\<bar>snd (snap_particlePos u 0 cellId)
      - (snd (snap_imageOffset u) + snd (snap_cellCenter u cellId))\<bar> \<le> 6"
proof -
  show "snap_cellLifeRatio u 0 cellId = 0"
    by (simp add: snap_cellLifeRatio_def snap_lifeRatio_def)
  show "fst (snap_particlePos u 0 cellId)
      = fst (snap_imageOffset u) + fst (snap_cellCenter u cellId)"
    by (simp add: snap_particlePos_def Let_def add2_def)
  have "\<bar>sin x * 6\<bar> \<le> 6" for x :: real
    using abs_sin_le_one [of x] by (simp add: abs_mult)
  then show "\<bar>snd (snap_particlePos u 0 cellId)
      - (snd (snap_imageOffset u) + snd (snap_cellCenter u cellId))\<bar> \<le> 6"
    by (simp add: snap_particlePos_def Let_def add2_def)
qed

lemma cellIdOf_shift:
  assumes "0 < particleSize u"
  shows "cellIdOf u (imgLocalPos u p ij)
       = add2 (cellIdOf u p) (of_int (fst ij), of_int (snd ij))"
proof -
  have "(x + of_int k * particleSize u) * (1 / particleSize u) = x * (1 / particleSize u) + of_int k"
    for x :: real and k :: int
    using assms by (simp add: field_simps)
  then show ?thesis
    by (simp add: cellIdOf_def imgLocalPos_def add2_def scale2_def Let_def)
qed

lemma cellCenter_shift:
  "cellCenter u (add2 c (of_int i, of_int j))
     = add2 (cellCenter u c) (of_int i * particleSize u, of_int j * particleSize u)"
  by (simp add: cellCenter_def add2_def scale2_def Let_def algebra_simps)

text \<open>
The offset of a point from the centre of its own cell is below half a cell.
\<close>

lemma own_cell_offset:
  assumes "0 < particleSize u"
  shows "fst (sub2 p (cellCenter u (cellIdOf u p))) < particleSize u * 0.5
       \<and> snd (sub2 p (cellCenter u (cellIdOf u p))) < particleSize u * 0.5"
proof -
  have "x - (of_int \<lfloor>x * (1 / particleSize u)\<rfloor> * particleSize u + particleSize u * 0.5)
      < particleSize u * 0.5" for x :: real
  proof -
    have "x * (1 / particleSize u) < of_int \<lfloor>x * (1 / particleSize u)\<rfloor> + 1"
      by linarith
    then have "x < (of_int \<lfloor>x * (1 / particleSize u)\<rfloor> + 1) * particleSize u"
      using assms by (simp add: field_simps)
    then show ?thesis by (simp add: algebra_simps)
  qed
  then show ?thesis
    by (simp add: sub2_def cellCenter_def cellIdOf_def add2_def scale2_def Let_def)
qed

lemma inside_bound:
  assumes "inside u d" and "0 < particleSize u"
  shows "\<bar>fst d\<bar> \<le> particleSize u * 0.5 \<and> \<bar>snd d\<bar> \<le> particleSize u * 0.5"
proof (cases "isCircle u = 1")
  case False
  then show ?thesis using assms by (simp add: inside_def Let_def)
next
  case True
  let ?h = "particleSize u * 0.5"
  have le: "fst d * fst d + snd d * snd d \<le> ?h * ?h"
    using assms True by (simp add: inside_def Let_def dot2_def)
  have h: "0 \<le> ?h" using assms by simp
  have "\<bar>x\<bar> \<le> ?h" if "x * x \<le> ?h * ?h" for x :: real
    using that h by (metis abs_le_square_iff abs_of_nonneg power2_eq_square)
  moreover have "fst d * fst d \<le> ?h * ?h" "snd d * snd d \<le> ?h * ?h"
    using le zero_le_square [of "fst d"] zero_le_square [of "snd d"] by linarith+
  ultimately show ?thesis by simp
qed

lemma neighbour_not_inside:
  assumes ps: "0 < particleSize u"
    and lo: "- (particleSize u * 0.5) < fst d" "- (particleSize u * 0.5) < snd d"
    and hi: "fst d < particleSize u * 0.5" "snd d < particleSize u * 0.5"
    and ne: "ij \<noteq> (0, 0)"
  shows "\<not> inside u (sub2 d (of_int (fst ij) * particleSize u, of_int (snd ij) * particleSize u))"
proof
  let ?s = "particleSize u"
  assume ins: "inside u (sub2 d (of_int (fst ij) * ?s, of_int (snd ij) * ?s))"
  have b: "\<bar>fst d - of_int (fst ij) * ?s\<bar> \<le> ?s * 0.5"
    "\<bar>snd d - of_int (snd ij) * ?s\<bar> \<le> ?s * 0.5"
    using inside_bound [OF ins ps] by (simp_all add: sub2_def)
  have far: "k = 0" if "\<bar>x - of_int k * ?s\<bar> \<le> ?s * 0.5" "- (?s * 0.5) < x" "x < ?s * 0.5"
    for x :: real and k :: int
  proof (rule ccontr)
    assume "k \<noteq> 0"
    then consider "k \<le> - 1" | "1 \<le> k" by linarith
    then show False
    proof cases
      case 1
      then have "real_of_int k \<le> - 1" by linarith
      then have "of_int k * ?s \<le> - 1 * ?s" using ps by (intro mult_right_mono) simp_all
      then show False using that by linarith
    next
      case 2
      then have "1 \<le> real_of_int k" by linarith
      then have "1 * ?s \<le> of_int k * ?s" using ps by (intro mult_right_mono) simp_all
      then show False using that by linarith
    qed
  qed
  have "fst ij = 0" using far [OF b(1) lo(1) hi(1)] .
  moreover have "snd ij = 0" using far [OF b(2) lo(2) hi(2)] .
  ultimately show False using ne by (simp add: prod_eq_iff)
qed

lemma rest_candidate_other:
  assumes ps: "0 < particleSize u"
    and lo: "- (particleSize u * 0.5) < fst (sub2 p (cellCenter u (cellIdOf u p)))"
            "- (particleSize u * 0.5) < snd (sub2 p (cellCenter u (cellIdOf u p)))"
    and ne: "ij \<noteq> (0, 0)"
  shows "candidate img u (add2 p (imageOffset u)) 0 p ij = None"
proof -
  let ?d = "sub2 p (cellCenter u (cellIdOf u p))"
  let ?c = "cellIdOf u (imgLocalPos u p ij)"
  have hi: "fst ?d < particleSize u * 0.5" "snd ?d < particleSize u * 0.5"
    using own_cell_offset [OF ps, of p] by simp_all
  have e: "cellCenter u ?c = add2 (cellCenter u (cellIdOf u p))
      (of_int (fst ij) * particleSize u, of_int (snd ij) * particleSize u)"
    by (simp add: cellIdOf_shift [OF ps] cellCenter_shift)
  have "sub2 (add2 p (imageOffset u)) (particlePos u 0 ?c)
      = sub2 ?d (of_int (fst ij) * particleSize u, of_int (snd ij) * particleSize u)"
    by (simp add: particlePos_at_zero e add2_def sub2_def)
  then have "\<not> inside u (sub2 (add2 p (imageOffset u)) (particlePos u 0 ?c))"
    using neighbour_not_inside [OF ps lo hi ne] by simp
  then show ?thesis
    by (simp add: candidate_def particle_def Let_def)
qed

lemma rest_candidate_own:
  "candidate img u (add2 p (imageOffset u)) 0 p (0, 0) =
    (if \<not> outOfImage u p \<and> inside u (sub2 p (cellCenter u (cellIdOf u p)))
        \<and> fade u 0 > 0.01 \<and> col_a (img (cellCenter u (cellIdOf u p))) > 0.1
     then Some (Half4 (col_rgb (img (cellCenter u (cellIdOf u p))))
                  (col_a (img (cellCenter u (cellIdOf u p))) * fade u 0))
     else None)"
proof -
  have p: "imgLocalPos u p (0, 0) = p"
    by (simp add: imgLocalPos_def add2_def scale2_def)
  have "sub2 (add2 p (imageOffset u)) (particlePos u 0 c) = sub2 p (cellCenter u c)" for c
    by (simp add: particlePos_at_zero add2_def sub2_def)
  then show ?thesis
    by (simp add: candidate_def particle_def Let_def p lifeRatio_at_zero)
qed

subsection \<open>C1: the first matching candidate\<close>

text \<open>
  C1 as the specification states it, on the earlier shader: the colour returned is that of
  the first candidate, in the order of the loops, that covers the pixel, has not expired, has
  a fade above the threshold and a source alpha above 0.1. With a particle size of 100, an
  image of 200 by 100 whose left half has alpha 0.05 and whose right half is opaque, at
  time 0 and at the pixel (100, 50) on the border of the two cells, that candidate is the
  offset (0, 0) with the opaque blue of the right cell; \<open>DUST_SNAP_SHADER\<close> returns the
  red of the left cell with alpha 0.05, the candidate (-1, 0), which comes first and is
  nearly transparent.
\<close>

theorem snap_ignores_source_alpha:
  "DUST_SNAP_SHADER_main twoToneImage (BlowAwayImage_uniforms 0 200 100 0 0 390 844 100 42)
      (100, 50) = Half4 (1, 0, 0) 0.05
 \<and> find (snap_claimed twoToneImage (BlowAwayImage_uniforms 0 200 100 0 0 390 844 100 42)
           (100, 50) 0
           (snap_baseImgPos (BlowAwayImage_uniforms 0 200 100 0 0 390 844 100 42) (100, 50)))
      (window MAX_SEARCH_X MAX_SEARCH_Y) = Some (0, 0)
 \<and> snap_drawn twoToneImage (BlowAwayImage_uniforms 0 200 100 0 0 390 844 100 42) 0
      (snap_baseImgPos (BlowAwayImage_uniforms 0 200 100 0 0 390 844 100 42) (100, 50)) (0, 0)
     = Half4 (0, 0, 1) 1
 \<and> DUST_SNAP_SHADER_main twoToneImage (BlowAwayImage_uniforms 0 200 100 0 0 390 844 100 42)
      (100, 50)
     \<noteq> snap_drawn twoToneImage (BlowAwayImage_uniforms 0 200 100 0 0 390 844 100 42) 0
         (snap_baseImgPos (BlowAwayImage_uniforms 0 200 100 0 0 390 844 100 42) (100, 50))
         (0, 0)"
proof -
  let ?u = "BlowAwayImage_uniforms 0 200 100 0 0 390 844 100 42"
  let ?W = "window MAX_SEARCH_X MAX_SEARCH_Y"
  note cfg = BlowAwayImage_uniforms_simps
  have base: "snap_baseImgPos ?u (100, 50) = (100, 50)"
    by (simp add: snap_baseImgPos_def Let_def add2_def sub2_def cfg)
  have pos: "snap_imgLocalPos ?u (100, 50) ij
      = (100 + 100 * of_int (fst ij), 50 + 100 * of_int (snd ij))" for ij
    by (simp add: snap_imgLocalPos_def add2_def scale2_def cfg)
  have inL: "\<not> snap_outOfImage ?u (snap_imgLocalPos ?u (100, 50) (- 1, 0))"
    by (simp add: snap_outOfImage_def pos cfg)
  have inR: "\<not> snap_outOfImage ?u (snap_imgLocalPos ?u (100, 50) (0, 0))"
    by (simp add: snap_outOfImage_def pos cfg)
  have out: "(fst ij = - 1 \<or> fst ij = 0) \<and> snd ij = 0"
    if "\<not> snap_outOfImage ?u (snap_imgLocalPos ?u (100, 50) ij)" for ij
  proof -
    have "0 \<le> 100 + 100 * real_of_int (fst ij)" "100 + 100 * real_of_int (fst ij) < 200"
      "0 \<le> 50 + 100 * real_of_int (snd ij)" "50 + 100 * real_of_int (snd ij) < 100"
      using that by (simp_all add: snap_outOfImage_def pos cfg)
    then have "- 1 \<le> real_of_int (fst ij)" "real_of_int (fst ij) < 1"
      "- 1 < real_of_int (snd ij)" "real_of_int (snd ij) < 1"
      by simp_all
    then have "- 1 \<le> fst ij" "fst ij < 1" "- 1 < snd ij" "snd ij < 1"
      by linarith+
    then show ?thesis by auto
  qed
  have cellL: "snap_cellCenter ?u (snap_cellIdOf ?u (snap_imgLocalPos ?u (100, 50) (- 1, 0)))
      = (50, 50)"
    by (simp add: snap_cellCenter_def snap_cellIdOf_def pos add2_def scale2_def cfg)
  have cellR: "snap_cellCenter ?u (snap_cellIdOf ?u (snap_imgLocalPos ?u (100, 50) (0, 0)))
      = (150, 50)"
    by (simp add: snap_cellCenter_def snap_cellIdOf_def pos add2_def scale2_def cfg)
  have covers: "snap_inside ?u (sub2 (100, 50) (snap_particlePos ?u 0 cellId))"
    if "snap_cellCenter ?u cellId = (50, 50) \<or> snap_cellCenter ?u cellId = (150, 50)" for cellId
    using that snap_at_rest(2) [of ?u cellId] snap_at_rest(3) [of ?u cellId]
    by (auto simp: snap_inside_def sub2_def Let_def cfg)
  have qL: "snap_qualifies ?u (100, 50) 0 (100, 50) (- 1, 0)"
    unfolding snap_qualifies_def Let_def
    using inL covers cellL
    by (simp add: snap_at_rest(1) snap_fade_def)
  have qR: "snap_qualifies ?u (100, 50) 0 (100, 50) (0, 0)"
    unfolding snap_qualifies_def Let_def
    using inR covers cellR
    by (simp add: snap_at_rest(1) snap_fade_def)
  have only: "ij = (- 1, 0) \<or> ij = (0, 0)" if "snap_qualifies ?u (100, 50) 0 (100, 50) ij" for ij
    using that out [of ij] by (auto simp: snap_qualifies_def Let_def prod_eq_iff)
  have inW: "(- 1, 0) \<in> set ?W" "(0, 0) \<in> set ?W"
    by (simp_all add: set_window MAX_SEARCH_X_def MAX_SEARCH_Y_def)
  have f1: "find (snap_qualifies ?u (100, 50) 0 (100, 50)) ?W = Some (- 1, 0)"
  proof (rule find_first [where R = rowMajor])
    show "sorted_wrt rowMajor ?W" by (rule window_sorted)
    show "(- 1, 0) \<in> set ?W" by (rule inW)
    show "snap_qualifies ?u (100, 50) 0 (100, 50) (- 1, 0)" by (rule qL)
  next
    fix y assume "y \<in> set ?W" "rowMajor y (- 1, 0)"
    then show "\<not> snap_qualifies ?u (100, 50) 0 (100, 50) y"
      using only [of y] by (auto simp: rowMajor_def)
  qed
  have opL: "\<not> snap_opaque twoToneImage ?u (100, 50) (- 1, 0)"
    by (simp add: snap_opaque_def cellL twoToneImage_def)
  have opR: "snap_opaque twoToneImage ?u (100, 50) (0, 0)"
    by (simp add: snap_opaque_def cellR twoToneImage_def)
  have f2: "find (snap_claimed twoToneImage ?u (100, 50) 0 (100, 50)) ?W = Some (0, 0)"
  proof (rule find_first [where R = rowMajor])
    show "sorted_wrt rowMajor ?W" by (rule window_sorted)
    show "(0, 0) \<in> set ?W" by (rule inW)
    show "snap_claimed twoToneImage ?u (100, 50) 0 (100, 50) (0, 0)"
      using qR opR by (simp add: snap_claimed_def)
  next
    fix y assume "y \<in> set ?W" "rowMajor y (0, 0)"
    then show "\<not> snap_claimed twoToneImage ?u (100, 50) 0 (100, 50) y"
      using only [of y] opL by (auto simp: rowMajor_def snap_claimed_def)
  qed
  have dL: "snap_drawn twoToneImage ?u 0 (100, 50) (- 1, 0) = Half4 (1, 0, 0) 0.05"
    by (simp add: snap_drawn_def Let_def cellL snap_at_rest(1) snap_fade_def twoToneImage_def)
  have dR: "snap_drawn twoToneImage ?u 0 (100, 50) (0, 0) = Half4 (0, 0, 1) 1"
    by (simp add: snap_drawn_def Let_def cellR snap_at_rest(1) snap_fade_def twoToneImage_def)
  have "scan (snap_candidate twoToneImage ?u (100, 50) 0 (100, 50)) ?W
      = (case find (snap_qualifies ?u (100, 50) 0 (100, 50)) ?W of
           None \<Rightarrow> transparent
         | Some ij \<Rightarrow> snap_drawn twoToneImage ?u 0 (100, 50) ij)"
    by (rule scan_first_match) (rule snap_candidate_qualifies)
  then have main: "DUST_SNAP_SHADER_main twoToneImage ?u (100, 50) = Half4 (1, 0, 0) 0.05"
    by (simp add: DUST_SNAP_SHADER_main_def Let_def base cfg f1 dL)
  show ?thesis using main f2 dR by (simp add: base)
qed

text \<open>
  C1 as amended. While the global cutoff does not apply, each shader returns the colour of
  the first candidate of its window, in the fixed order of its nested loops (offset \<open>i\<close>
  outermost, then \<open>j\<close>), that passes the tests of its body, and ignores every later
  candidate; when no candidate passes, or past the cutoff, it returns the transparent colour.
  The colour is the source colour at the rest centre of the cell, with its alpha multiplied
  by the fade. In \<open>DUST_SHADER\<close> the tests are those of the specification: inside the
  image, covering the pixel, \<open>lifeRatio < 1\<close>, fade above 0.01 and source alpha above 0.1.
  \<open>DUST_SNAP_SHADER\<close> makes the first four only.
\<close>

theorem first_match_wins:
  "DUST_SHADER_main img u fragCoord =
     (let screenCoord = add2 fragCoord (canvasOffset u);
          t = time u * timeScale u;
          base = baseImgPos u fragCoord
      in if t > maxTime u then transparent
         else case find (qualifies img u screenCoord t base) (window SEARCH_RAD SEARCH_RAD) of
                None \<Rightarrow> transparent
              | Some ij \<Rightarrow> drawn img u t base ij)
 \<and> DUST_SNAP_SHADER_main img su fragCoord =
     (let t = snap_time su * 60;
          base = snap_baseImgPos su fragCoord
      in if t > 180 then transparent
         else case find (snap_qualifies su fragCoord t base) (window MAX_SEARCH_X MAX_SEARCH_Y) of
                None \<Rightarrow> transparent
              | Some ij \<Rightarrow> snap_drawn img su t base ij)
 \<and> sorted_wrt rowMajor (window SEARCH_RAD SEARCH_RAD)
 \<and> sorted_wrt rowMajor (window MAX_SEARCH_X MAX_SEARCH_Y)"
proof -
  have a: "scan (candidate img u sc t base) cs =
      (case find (qualifies img u sc t base) cs of
         None \<Rightarrow> transparent | Some ij \<Rightarrow> drawn img u t base ij)" for sc t base cs
    by (rule scan_first_match) (rule candidate_qualifies)
  have b: "scan (snap_candidate img su fc t base) cs =
      (case find (snap_qualifies su fc t base) cs of
         None \<Rightarrow> transparent | Some ij \<Rightarrow> snap_drawn img su t base ij)" for fc t base cs
    by (rule scan_first_match) (rule snap_candidate_qualifies)
  show ?thesis
    by (simp add: DUST_SHADER_main_def DUST_SNAP_SHADER_main_def Let_def a b window_sorted)
qed

theorem first_match_wins_witness:
  "find (qualifies gradientImage (DustSnapGL_uniforms 0 layout8 4 42 square) (4, 2) 0 (4, 2))
     (window SEARCH_RAD SEARCH_RAD) = Some (- 1, 0)
 \<and> qualifies gradientImage (DustSnapGL_uniforms 0 layout8 4 42 square) (4, 2) 0 (4, 2) (0, 0)
 \<and> drawn gradientImage (DustSnapGL_uniforms 0 layout8 4 42 square) 0 (4, 2) (0, 0)
     = Half4 (6, 2, 0) 1
 \<and> DUST_SHADER_main gradientImage (DustSnapGL_uniforms 0 layout8 4 42 square) (4, 2)
     = Half4 (2, 2, 0) 1"
proof -
  let ?u = "DustSnapGL_uniforms 0 layout8 4 42 square"
  let ?W = "window SEARCH_RAD SEARCH_RAD"
  have lay: "layout_x layout8 = 0" "layout_y layout8 = 0"
    "layout_width layout8 = 8" "layout_height layout8 = 8"
    by (simp_all add: layout8_def)
  note cfg = DustSnapGL_uniforms_simps lay
  have pos: "imgLocalPos ?u (4, 2) ij = (4 + 4 * of_int (fst ij), 2 + 4 * of_int (snd ij))" for ij
    by (simp add: imgLocalPos_def add2_def scale2_def cfg)
  have early: "outOfImage ?u (imgLocalPos ?u (4, 2) ij)" if "rowMajor ij (- 1, 0)" for ij
  proof -
    have "fst ij \<le> - 2 \<or> snd ij \<le> - 1" using that by (auto simp: rowMajor_def)
    then have "real_of_int (fst ij) \<le> - 2 \<or> real_of_int (snd ij) \<le> - 1" by linarith
    then show ?thesis by (auto simp: outOfImage_def pos cfg)
  qed
  have cL: "cellCenter ?u (cellIdOf ?u (imgLocalPos ?u (4, 2) (- 1, 0))) = (2, 2)"
    by (simp add: pos cellCenter_def cellIdOf_def add2_def scale2_def Let_def cfg)
  have cR: "cellCenter ?u (cellIdOf ?u (imgLocalPos ?u (4, 2) (0, 0))) = (6, 2)"
    by (simp add: pos cellCenter_def cellIdOf_def add2_def scale2_def Let_def cfg)
  have fd: "fade ?u 0 = 1" by (simp add: fade_def Let_def cfg)
  have qL: "qualifies gradientImage ?u (4, 2) 0 (4, 2) (- 1, 0)"
    unfolding qualifies_def Let_def particlePos_at_zero cL lifeRatio_at_zero fd
    by (simp add: outOfImage_def pos inside_def sub2_def add2_def gradientImage_def cfg)
  have qR: "qualifies gradientImage ?u (4, 2) 0 (4, 2) (0, 0)"
    unfolding qualifies_def Let_def particlePos_at_zero cR lifeRatio_at_zero fd
    by (simp add: outOfImage_def pos inside_def sub2_def add2_def gradientImage_def cfg)
  have f: "find (qualifies gradientImage ?u (4, 2) 0 (4, 2)) ?W = Some (- 1, 0)"
  proof (rule find_first [where R = rowMajor])
    show "sorted_wrt rowMajor ?W" by (rule window_sorted)
    show "(- 1, 0) \<in> set ?W" by (simp add: set_window SEARCH_RAD_def)
    show "qualifies gradientImage ?u (4, 2) 0 (4, 2) (- 1, 0)" by (rule qL)
  next
    fix y assume "y \<in> set ?W" "rowMajor y (- 1, 0)"
    then show "\<not> qualifies gradientImage ?u (4, 2) 0 (4, 2) y"
      using early [of y] by (simp add: qualifies_def Let_def)
  qed
  have dL: "drawn gradientImage ?u 0 (4, 2) (- 1, 0) = Half4 (2, 2, 0) 1"
    unfolding drawn_def Let_def cL lifeRatio_at_zero fd by (simp add: gradientImage_def)
  have dR: "drawn gradientImage ?u 0 (4, 2) (0, 0) = Half4 (6, 2, 0) 1"
    unfolding drawn_def Let_def cR lifeRatio_at_zero fd by (simp add: gradientImage_def)
  have base: "baseImgPos ?u (4, 2) = (4, 2)" "add2 (4, 2) (canvasOffset ?u) = (4, 2)"
    "time ?u * timeScale ?u = 0" "maxTime ?u = 250"
    by (simp_all add: baseImgPos_def Let_def add2_def sub2_def cfg)
  show ?thesis
    using first_match_wins [where img = gradientImage and u = ?u and fragCoord = "(4, 2)"]
      f qR dL dR
    by (simp add: Let_def base)
qed

subsection \<open>C2: the motion model\<close>

text \<open>
  C2. For every cell and every elapsed time \<open>t\<close>, the displacement computed by the shader is
  the specification's: the sum of the wind term
  (\<open>windX = -windSpeed * t * (0.7 + 0.6 h)\<close>,
  \<open>windY = (2 rnd2 - 1) * verticalSpread * t * (0.5 + 0.5 rnd3)\<close>), the turbulence, burst,
  float and drift terms, all multiplied by \<open>startEase = min(lifeRatio * 10, 1)\<close>; and the
  particle's centre on screen is \<open>imageOffset + cellCenter + displacement\<close>.
\<close>

theorem displacement_formula:
  "movement u t h rnd2 rnd3 (lifeRatio u t h) = spec_displacement u t h rnd2 rnd3
 \<and> particlePos u t cellId =
     add2 (add2 (imageOffset u) (cellCenter u cellId))
       (spec_displacement u t (cellHash u cellId) (frac (cellHash u cellId * 7.243))
          (frac (cellHash u cellId * 13.759)))"
proof -
  have same: "movement u t k r2 r3 (lifeRatio u t k) = spec_displacement u t k r2 r3"
    for k r2 r3
  proof -
    have ph: "t * 0.07 + r3 * 20.0 = 0.07 * t + 20 * r3"
      "t * 0.05 + k * 10.0 = 0.05 * t + 10 * k"
      "r3 * 6.283 = 6.283 * r3"
      "(0.05 * t + 10 * k) * 0.7 = 0.7 * (0.05 * t + 10 * k)"
      "1.0 + t / (lifetimeMin u + k * lifetimeRange u) * 5.0
         = 1 + 5 * (t / (lifetimeMin u + k * lifetimeRange u))"
      by simp_all
    show ?thesis
      unfolding movement_def spec_displacement_def Let_def lifeRatio_def maxLife_def
        startEase_def scale2_def fst_conv snd_conv ph
      by (simp add: algebra_simps power2_eq_square)
  qed
  have "particlePos u t cellId =
     add2 (add2 (imageOffset u) (cellCenter u cellId))
       (spec_displacement u t (cellHash u cellId) (frac (cellHash u cellId * 7.243))
          (frac (cellHash u cellId * 13.759)))"
    unfolding particlePos_def Let_def same ..
  then show ?thesis using same by simp
qed

subsection \<open>C3: the global cutoff\<close>

text \<open>
  C3. Whenever \<open>time * timeScale > maxTime\<close> the shader returns the fully transparent colour,
  for every pixel, image, placement, seed and configuration, whatever the lifetimes of the
  cells are. The earlier shader does the same with its constants 60 and 180.
\<close>

theorem global_cutoff:
  "(time u * timeScale u > maxTime u \<longrightarrow> DUST_SHADER_main img u fragCoord = transparent)
 \<and> (snap_time su * 60 > 180 \<longrightarrow> DUST_SNAP_SHADER_main img su fragCoord = transparent)"
  by (simp add: DUST_SHADER_main_def DUST_SNAP_SHADER_main_def Let_def)

theorem global_cutoff_witness:
  "time (DustSnapGL_uniforms 12 layout8 3 42 circle)
      * timeScale (DustSnapGL_uniforms 12 layout8 3 42 circle)
      > maxTime (DustSnapGL_uniforms 12 layout8 3 42 circle)
 \<and> DUST_SHADER_main whiteImage (DustSnapGL_uniforms 12 layout8 3 42 circle) (5, 5) = transparent
 \<and> snap_time (BlowAwayImage_uniforms 4 8 8 0 0 390 844 4 42) * 60 > 180
 \<and> DUST_SNAP_SHADER_main whiteImage (BlowAwayImage_uniforms 4 8 8 0 0 390 844 4 42) (5, 5)
     = transparent"
proof -
  have a: "time (DustSnapGL_uniforms 12 layout8 3 42 circle)
      * timeScale (DustSnapGL_uniforms 12 layout8 3 42 circle)
      > maxTime (DustSnapGL_uniforms 12 layout8 3 42 circle)"
    by (simp add: DustSnapGL_uniforms_def TIME_SCALE_def MAX_TIME_def)
  have b: "snap_time (BlowAwayImage_uniforms 4 8 8 0 0 390 844 4 42) * 60 > 180"
    by (simp add: BlowAwayImage_uniforms_def)
  show ?thesis
    using a b
      global_cutoff [where u = "DustSnapGL_uniforms 12 layout8 3 42 circle"
        and img = whiteImage and fragCoord = "(5, 5)"
        and su = "BlowAwayImage_uniforms 4 8 8 0 0 390 844 4 42"]
    by blast
qed

subsection \<open>C4: the frame at time 0\<close>

text \<open>
  C4 as the specification states it: at time 0 every pixel inside the placement rectangle
  shows the image sampled at the rest centre of the pixel's cell. With circular particles of
  size 4 on an opaque white image of 8 by 8, the pixel (0.5, 0.5) lies inside the rectangle,
  in the corner of the cell (0, 0) and outside the disc of radius 2 around (2, 2): the
  shader returns the transparent colour.
\<close>

theorem circle_leaves_corners_empty:
  "time (DustSnapGL_uniforms 0 layout8 4 42 circle) = 0
 \<and> \<not> outOfImage (DustSnapGL_uniforms 0 layout8 4 42 circle)
      (sub2 (add2 (1 / 2, 1 / 2) (canvasOffset (DustSnapGL_uniforms 0 layout8 4 42 circle)))
         (imageOffset (DustSnapGL_uniforms 0 layout8 4 42 circle)))
 \<and> whiteImage (cellCenter (DustSnapGL_uniforms 0 layout8 4 42 circle)
      (cellIdOf (DustSnapGL_uniforms 0 layout8 4 42 circle) (1 / 2, 1 / 2))) = Half4 (1, 1, 1) 1
 \<and> DUST_SHADER_main whiteImage (DustSnapGL_uniforms 0 layout8 4 42 circle) (1 / 2, 1 / 2)
     = transparent
 \<and> DUST_SHADER_main whiteImage (DustSnapGL_uniforms 0 layout8 4 42 circle) (1 / 2, 1 / 2)
     \<noteq> whiteImage (cellCenter (DustSnapGL_uniforms 0 layout8 4 42 circle)
         (cellIdOf (DustSnapGL_uniforms 0 layout8 4 42 circle) (1 / 2, 1 / 2)))"
proof -
  let ?u = "DustSnapGL_uniforms 0 layout8 4 42 circle"
  let ?p = "(1 / 2, 1 / 2) :: float2"
  have lay: "layout_x layout8 = 0" "layout_y layout8 = 0"
    "layout_width layout8 = 8" "layout_height layout8 = 8"
    by (simp_all add: layout8_def)
  note cfg = DustSnapGL_uniforms_simps lay
  have sc: "add2 ?p (canvasOffset ?u) = add2 ?p (imageOffset ?u)"
    "sub2 (add2 ?p (canvasOffset ?u)) (imageOffset ?u) = ?p"
    by (simp_all add: add2_def sub2_def cfg)
  have c: "cellCenter ?u (cellIdOf ?u ?p) = (2, 2)"
    by (simp add: cellCenter_def cellIdOf_def add2_def scale2_def Let_def cfg)
  have "\<not> inside ?u (sub2 ?p (cellCenter ?u (cellIdOf ?u ?p)))"
    by (simp add: c sub2_def inside_def Let_def dot2_def cfg)
  then have own: "candidate whiteImage ?u (add2 ?p (imageOffset ?u)) 0 ?p (0, 0) = None"
    by (simp add: rest_candidate_own)
  have other: "candidate whiteImage ?u (add2 ?p (imageOffset ?u)) 0 ?p ij = None"
    if "ij \<noteq> (0, 0)" for ij
    using that by (intro rest_candidate_other) (simp_all add: c sub2_def cfg)
  have "candidate whiteImage ?u (add2 ?p (imageOffset ?u)) 0 ?p ij = None" for ij
    using own other by (cases "ij = (0, 0)") simp_all
  then have "scan (candidate whiteImage ?u (add2 ?p (imageOffset ?u)) 0 ?p)
      (window SEARCH_RAD SEARCH_RAD) = transparent"
    by (simp add: scan_all_None)
  then have main: "DUST_SHADER_main whiteImage ?u ?p = transparent"
    by (simp add: DUST_SHADER_main_def Let_def baseImgPos_at_zero cfg add2_def sub2_def)
  have out: "\<not> outOfImage ?u ?p" by (simp add: outOfImage_def cfg)
  show ?thesis
    using main out by (simp add: cfg whiteImage_def add2_def sub2_def transparent_def)
qed

text \<open>
  C4 as amended. At \<open>t = 0\<close> the displacement of every cell is zero and every particle
  sits at the rest centre of its cell. For a pixel inside the placement rectangle that its
  own cell's particle covers (for circular particles: within half a cell of the centre),
  that is not on the low edge of its cell, and whose cell has a source alpha above 0.1, the
  shader returns the image sampled at the rest centre of that cell. Here \<open>p\<close> is the pixel
  in image-local coordinates and \<open>d\<close> its offset from the centre of its cell.
\<close>

theorem early_time_identity:
  assumes "time u = 0" and "0 \<le> maxTime u" and "0 < particleSize u" and "0 \<le> fadeStart u"
    and "0 < lifetimeMin u" and "0 \<le> lifetimeRange u"
    and "p = sub2 (add2 fragCoord (canvasOffset u)) (imageOffset u)"
    and "d = sub2 p (cellCenter u (cellIdOf u p))"
  shows "movement u 0 (cellHash u cellId) (frac (cellHash u cellId * 7.243))
           (frac (cellHash u cellId * 13.759)) (lifeRatio u 0 (cellHash u cellId)) = (0, 0)
   \<and> particlePos u 0 cellId = add2 (imageOffset u) (cellCenter u cellId)
   \<and> (\<not> outOfImage u p
        \<and> - (particleSize u * 0.5) < fst d \<and> - (particleSize u * 0.5) < snd d
        \<and> inside u d
        \<and> col_a (img (cellCenter u (cellIdOf u p))) > 0.1
      \<longrightarrow> DUST_SHADER_main img u fragCoord = img (cellCenter u (cellIdOf u p)))"
proof -
  let ?sc = "add2 fragCoord (canvasOffset u)"
  let ?c = "cellIdOf u p"
  have sc: "?sc = add2 p (imageOffset u)"
    using assms(7) by (simp add: add2_def sub2_def)
  have main: "DUST_SHADER_main img u fragCoord = img (cellCenter u ?c)"
    if h: "\<not> outOfImage u p" "- (particleSize u * 0.5) < fst d"
      "- (particleSize u * 0.5) < snd d" "inside u d" "col_a (img (cellCenter u ?c)) > 0.1"
  proof -
    have fd: "fade u 0 = 1" using assms(4) by (simp add: fade_def Let_def)
    have own: "candidate img u ?sc 0 p (0, 0) = Some (img (cellCenter u ?c))"
      using h assms(8) by (simp add: sc rest_candidate_own fd)
    have other: "candidate img u ?sc 0 p ij = None" if "ij \<noteq> (0, 0)" for ij
      unfolding sc using assms(3) h(2,3) that unfolding assms(8) by (rule rest_candidate_other)
    have "(0, 0) \<in> set (window SEARCH_RAD SEARCH_RAD)"
      by (simp add: set_window SEARCH_RAD_def)
    then have "scan (candidate img u ?sc 0 p) (window SEARCH_RAD SEARCH_RAD)
        = img (cellCenter u ?c)"
      using own other by (rule scan_unique)
    then show ?thesis
      using assms(1,2,7) by (simp add: DUST_SHADER_main_def Let_def baseImgPos_at_zero)
  qed
  show ?thesis
    using main by (simp add: movement_at_zero particlePos_at_zero)
qed

theorem early_time_identity_witness:
  "time (DustSnapGL_uniforms 0 layout8 4 42 circle) = 0
 \<and> 0 \<le> maxTime (DustSnapGL_uniforms 0 layout8 4 42 circle)
 \<and> 0 < particleSize (DustSnapGL_uniforms 0 layout8 4 42 circle)
 \<and> 0 \<le> fadeStart (DustSnapGL_uniforms 0 layout8 4 42 circle)
 \<and> 0 < lifetimeMin (DustSnapGL_uniforms 0 layout8 4 42 circle)
 \<and> 0 \<le> lifetimeRange (DustSnapGL_uniforms 0 layout8 4 42 circle)
 \<and> \<not> outOfImage (DustSnapGL_uniforms 0 layout8 4 42 circle) (5 / 2, 3 / 2)
 \<and> cellCenter (DustSnapGL_uniforms 0 layout8 4 42 circle)
      (cellIdOf (DustSnapGL_uniforms 0 layout8 4 42 circle) (5 / 2, 3 / 2)) = (2, 2)
 \<and> inside (DustSnapGL_uniforms 0 layout8 4 42 circle) (1 / 2, - 1 / 2)
 \<and> particlePos (DustSnapGL_uniforms 0 layout8 4 42 circle) 0 (1, 0) = (6, 2)
 \<and> DUST_SHADER_main gradientImage (DustSnapGL_uniforms 0 layout8 4 42 circle) (5 / 2, 3 / 2)
     = Half4 (2, 2, 0) 1"
proof -
  let ?u = "DustSnapGL_uniforms 0 layout8 4 42 circle"
  have lay: "layout_x layout8 = 0" "layout_y layout8 = 0"
    "layout_width layout8 = 8" "layout_height layout8 = 8"
    by (simp_all add: layout8_def)
  note cfg = DustSnapGL_uniforms_simps lay
  have p: "(5 / 2, 3 / 2) = sub2 (add2 (5 / 2, 3 / 2) (canvasOffset ?u)) (imageOffset ?u)"
    by (simp add: add2_def sub2_def cfg)
  have c: "cellCenter ?u (cellIdOf ?u (5 / 2, 3 / 2)) = (2, 2)"
    by (simp add: cellCenter_def cellIdOf_def add2_def scale2_def Let_def cfg)
  have d: "(1 / 2, - 1 / 2) = sub2 (5 / 2, 3 / 2) (cellCenter ?u (cellIdOf ?u (5 / 2, 3 / 2)))"
    by (simp add: c sub2_def)
  have ins: "inside ?u (1 / 2, - 1 / 2)"
    by (simp add: inside_def Let_def dot2_def cfg)
  have out: "\<not> outOfImage ?u (5 / 2, 3 / 2)"
    by (simp add: outOfImage_def cfg)
  have cc: "cellCenter ?u (1, 0) = (6, 2)"
    by (simp add: cellCenter_def add2_def scale2_def Let_def cfg)
  show ?thesis
    using early_time_identity [where u = ?u and fragCoord = "(5 / 2, 3 / 2)"
        and p = "(5 / 2, 3 / 2)" and d = "(1 / 2, - 1 / 2)" and img = gradientImage
        and cellId = "(1, 0)", OF _ _ _ _ _ _ p d]
      ins out
    by (simp add: cfg c cc gradientImage_def add2_def)
qed

subsection \<open>C5: expiry\<close>

text \<open>
  C5. For a fixed cell, with \<open>lifetimeMin > 0\<close> and \<open>lifetimeRange \<ge> 0\<close>, the maximal
  life is positive, \<open>lifeRatio t = t / maxLife\<close> does not decrease in \<open>t\<close>, and once
  \<open>lifeRatio \<ge> 1\<close> at some \<open>t\<close> the cell gives no colour to any pixel at any later
  \<open>t'\<close>: neither its particle nor any candidate offset that leads to the cell.
\<close>

theorem monotonic_expiry:
  assumes "lifetimeMin u > 0" and "lifetimeRange u \<ge> 0"
  shows "maxLife u (cellHash u cellId) > 0
   \<and> (t \<le> t' \<longrightarrow> lifeRatio u t (cellHash u cellId) \<le> lifeRatio u t' (cellHash u cellId))
   \<and> (lifeRatio u t (cellHash u cellId) \<ge> 1 \<and> t < t' \<longrightarrow>
        particle img u screenCoord t' cellId = None
      \<and> (cellIdOf u (imgLocalPos u base ij) = cellId \<longrightarrow>
           candidate img u screenCoord t' base ij = None))"
proof -
  let ?h = "cellHash u cellId"
  have pos: "maxLife u ?h > 0"
    using assms cellHash_range by (simp add: maxLife_pos)
  have mono: "lifeRatio u a ?h \<le> lifeRatio u b ?h" if "a \<le> b" for a b
    using pos that by (simp add: lifeRatio_def divide_right_mono)
  have dead: "particle img u screenCoord t' cellId = None"
    if "lifeRatio u t ?h \<ge> 1" "t < t'"
  proof -
    have "lifeRatio u t ?h \<le> lifeRatio u t' ?h" using that mono by simp
    then show ?thesis using that particle_expired by simp
  qed
  have "candidate img u screenCoord t' base ij = None"
    if "lifeRatio u t ?h \<ge> 1" "t < t'" "cellIdOf u (imgLocalPos u base ij) = cellId"
    using dead that by (simp add: candidate_def Let_def)
  then show ?thesis using pos mono dead by blast
qed

theorem monotonic_expiry_witness:
  "lifetimeMin (DustSnapGL_uniforms 0 layout8 3 42 circle) > 0
 \<and> lifetimeRange (DustSnapGL_uniforms 0 layout8 3 42 circle) \<ge> 0
 \<and> maxLife (DustSnapGL_uniforms 0 layout8 3 42 circle)
      (cellHash (DustSnapGL_uniforms 0 layout8 3 42 circle) (0, 0)) > 0
 \<and> lifeRatio (DustSnapGL_uniforms 0 layout8 3 42 circle) 300
      (cellHash (DustSnapGL_uniforms 0 layout8 3 42 circle) (0, 0))
    \<le> lifeRatio (DustSnapGL_uniforms 0 layout8 3 42 circle) 310
      (cellHash (DustSnapGL_uniforms 0 layout8 3 42 circle) (0, 0))
 \<and> lifeRatio (DustSnapGL_uniforms 0 layout8 3 42 circle) 300
      (cellHash (DustSnapGL_uniforms 0 layout8 3 42 circle) (0, 0)) \<ge> 1
 \<and> particle whiteImage (DustSnapGL_uniforms 0 layout8 3 42 circle) (1, 1) 310 (0, 0) = None
 \<and> cellIdOf (DustSnapGL_uniforms 0 layout8 3 42 circle)
      (imgLocalPos (DustSnapGL_uniforms 0 layout8 3 42 circle) (1, 1) (0, 0)) = (0, 0)
 \<and> candidate whiteImage (DustSnapGL_uniforms 0 layout8 3 42 circle) (1, 1) 310 (1, 1) (0, 0)
     = None"
proof -
  let ?u = "DustSnapGL_uniforms 0 layout8 3 42 circle"
  let ?h = "cellHash ?u (0, 0)"
  have cfg: "lifetimeMin ?u = 180" "lifetimeRange ?u = 100" "particleSize ?u = 3"
    by (simp_all add: DustSnapGL_uniforms_def LIFETIME_MIN_def LIFETIME_RANGE_def)
  have h: "0 \<le> ?h" "?h < 1" using cellHash_range by simp_all
  have ml: "0 < maxLife ?u ?h" "maxLife ?u ?h < 300"
    using h by (simp_all add: maxLife_def cfg add_pos_nonneg)
  have old: "lifeRatio ?u 300 ?h \<ge> 1"
    using ml by (simp add: lifeRatio_def)
  have cell: "cellIdOf ?u (imgLocalPos ?u (1, 1) (0, 0)) = (0, 0)"
    by (simp add: cellIdOf_def imgLocalPos_def add2_def scale2_def cfg Let_def)
  show ?thesis
    using old cell
      monotonic_expiry [where u = ?u and cellId = "(0, 0)" and t = 300 and t' = 310
        and img = whiteImage and screenCoord = "(1, 1)" and base = "(1, 1)" and ij = "(0, 0)"]
    by (simp add: cfg)
qed

subsection \<open>C6: the fade\<close>

text \<open>
  C6. The fade of a cell is 1 for \<open>lifeRatio \<le> fadeStart\<close>, it is
  \<open>(1 - (lifeRatio - fadeStart) / (1 - fadeStart))\<^sup>2\<close> above \<open>fadeStart\<close>, it takes the value 1
  at \<open>lifeRatio = fadeStart\<close> and 0 at \<open>lifeRatio = 1\<close>, and it does not increase on
  \<open>[fadeStart, 1]\<close>. The interval and the division are those of a fade start below 1.
\<close>

theorem fade_bounds:
  assumes "fadeStart u < 1"
  shows "(lr \<le> fadeStart u \<longrightarrow> fade u lr = 1)
       \<and> (lr > fadeStart u \<longrightarrow> fade u lr = (1 - (lr - fadeStart u) / (1 - fadeStart u))\<^sup>2)
       \<and> fade u (fadeStart u) = 1 \<and> fade u 1 = 0
       \<and> (fadeStart u \<le> x \<and> x \<le> y \<and> y \<le> 1 \<longrightarrow> fade u y \<le> fade u x)"
proof -
  let ?fs = "fadeStart u"
  let ?g = "\<lambda>z. 1 - (z - ?fs) / (1 - ?fs)"
  have pos: "0 < 1 - ?fs" using assms by simp
  have mono: "fade u y \<le> fade u x" if h: "?fs \<le> x" "x \<le> y" "y \<le> 1"
  proof (cases "x = ?fs")
    case True
    have "?g y \<le> 1" using pos h by (simp add: field_simps)
    moreover have "0 \<le> ?g y" using pos h by (simp add: field_simps)
    ultimately have "?g y * ?g y \<le> 1" by (simp add: mult_le_one)
    then show ?thesis using True h by (auto simp: fade_def Let_def)
  next
    case False
    then have xs: "?fs < x" "?fs < y" using h by auto
    have "(x - ?fs) / (1 - ?fs) \<le> (y - ?fs) / (1 - ?fs)"
      using pos h by (intro divide_right_mono) auto
    then have "?g y \<le> ?g x" by simp
    moreover have "0 \<le> ?g y" using pos h by (simp add: field_simps)
    ultimately have "?g y * ?g y \<le> ?g x * ?g x" by (simp add: mult_mono)
    then show ?thesis using xs by (simp add: fade_def Let_def)
  qed
  show ?thesis using assms mono by (auto simp: fade_def Let_def power2_eq_square)
qed

theorem fade_bounds_witness:
  "fadeStart (DustSnapGL_uniforms 0 layout8 3 42 circle) < 1
 \<and> fade (DustSnapGL_uniforms 0 layout8 3 42 circle) 0.5 = 1
 \<and> fade (DustSnapGL_uniforms 0 layout8 3 42 circle) 0.96 = 0.25
 \<and> fade (DustSnapGL_uniforms 0 layout8 3 42 circle) 0.92 = 1
 \<and> fade (DustSnapGL_uniforms 0 layout8 3 42 circle) 1 = 0
 \<and> fade (DustSnapGL_uniforms 0 layout8 3 42 circle) 0.98
     \<le> fade (DustSnapGL_uniforms 0 layout8 3 42 circle) 0.96"
proof -
  have fs: "fadeStart (DustSnapGL_uniforms 0 layout8 3 42 circle) = 0.92"
    by (simp add: DustSnapGL_uniforms_def FADE_START_def)
  show ?thesis
    using fade_bounds [where u = "DustSnapGL_uniforms 0 layout8 3 42 circle"
        and lr = "0.5" and x = "0.96" and y = "0.98"]
      fade_bounds [where u = "DustSnapGL_uniforms 0 layout8 3 42 circle"
        and lr = "0.96" and x = "0.96" and y = "0.98"]
    by (simp add: fs power2_eq_square)
qed

subsection \<open>C7: candidates outside the image\<close>

text \<open>
  C7. A candidate whose image-local position lies outside \<open>[0, imageSize)\<close> is rejected
  before any motion is computed, and for a placement of zero width or zero height every
  candidate is rejected at every pixel and time: the shader returns the fully transparent
  colour. The quotient \<open>1 / particleSize\<close> is computed before the loop and used by no
  rejected candidate.
\<close>

theorem out_of_image_rejected:
  "(outOfImage u (imgLocalPos u base ij) \<longrightarrow> candidate img u screenCoord t base ij = None)
 \<and> (fst (imageSize u) = 0 \<or> snd (imageSize u) = 0 \<longrightarrow>
      DUST_SHADER_main img u fragCoord = transparent)"
proof -
  have rej: "candidate img u sc t' b c = None" if "outOfImage u (imgLocalPos u b c)" for sc t' b c
    using that by (simp add: candidate_def Let_def)
  have "DUST_SHADER_main img u fragCoord = transparent"
    if "fst (imageSize u) = 0 \<or> snd (imageSize u) = 0"
  proof -
    have "outOfImage u p" for p using that by (auto simp: outOfImage_def)
    then show ?thesis
      by (simp add: DUST_SHADER_main_def Let_def scan_all_None rej)
  qed
  then show ?thesis using rej by blast
qed

theorem out_of_image_rejected_witness:
  "outOfImage (DustSnapGL_uniforms 0 layout8 3 42 circle)
     (imgLocalPos (DustSnapGL_uniforms 0 layout8 3 42 circle) (5, 5) (- 4, 0))
 \<and> candidate whiteImage (DustSnapGL_uniforms 0 layout8 3 42 circle) (5, 5) 0 (5, 5) (- 4, 0)
     = None
 \<and> fst (imageSize (DustSnapGL_uniforms 0 layoutFlat 3 42 circle)) = 0
 \<and> DUST_SHADER_main whiteImage (DustSnapGL_uniforms 0 layoutFlat 3 42 circle) (5, 5)
     = transparent"
proof -
  have a: "outOfImage (DustSnapGL_uniforms 0 layout8 3 42 circle)
     (imgLocalPos (DustSnapGL_uniforms 0 layout8 3 42 circle) (5, 5) (- 4, 0))"
    by (simp add: outOfImage_def imgLocalPos_def DustSnapGL_uniforms_def add2_def scale2_def)
  have b: "fst (imageSize (DustSnapGL_uniforms 0 layoutFlat 3 42 circle)) = 0"
    by (simp add: DustSnapGL_uniforms_def layoutFlat_def)
  show ?thesis
    using a b
      out_of_image_rejected [where u = "DustSnapGL_uniforms 0 layout8 3 42 circle"
        and base = "(5, 5)" and ij = "(- 4, 0)" and img = whiteImage
        and screenCoord = "(5, 5)" and t = 0]
      out_of_image_rejected [where u = "DustSnapGL_uniforms 0 layoutFlat 3 42 circle"
        and img = whiteImage and fragCoord = "(5, 5)"]
    by blast
qed

subsection \<open>C8: the particle size handed to the shaders\<close>

text \<open>
  C8 as the specification states it: the particle size is asserted positive when the
  configuration is supplied, and a configuration that fails the assertion is refused rather
  than adjusted. Neither component does so: with a particle size of 0, BlowAwayImage hands
  the shader 2, and DustSnapGL hands it 0.
\<close>

theorem particleSize_not_asserted:
  "snap_particleSize (BlowAwayImage_uniforms 0 100 100 0 0 390 844 0 42) = 2
 \<and> particleSize (DustSnapGL_uniforms 0
      \<lparr>layout_x = 0, layout_y = 0, layout_width = 100, layout_height = 100\<rparr> 0 42 circle) = 0"
  by (simp add: BlowAwayImage_uniforms_def DustSnapGL_uniforms_def)

text \<open>
  C8 as amended. No component asserts anything about the particle size: BlowAwayImage
  replaces it by \<open>max 2 particleSize\<close> each time the uniforms are derived, so its shader
  always divides by at least 2, and DustSnapGL passes \<open>pieceSize\<close> on unchanged.
\<close>

theorem particleSize_handling:
  "snap_particleSize (BlowAwayImage_uniforms tm w h ox oy sw sh ps sd) = max 2 ps
 \<and> 2 \<le> snap_particleSize (BlowAwayImage_uniforms tm w h ox oy sw sh ps sd)
 \<and> particleSize (DustSnapGL_uniforms tm layout pieceSize sd shape) = pieceSize"
  by (simp add: BlowAwayImage_uniforms_def DustSnapGL_uniforms_def)

subsection \<open>C10: a run of DustSnapGL\<close>

text \<open>
  C10 as the specification states it ends on: during a run particles vanish only by leaving
  the screen or when the component unmounts. Half way through the ramp (\<open>time = 0.5\<close>,
  \<open>t = 11\<close>), with seed 0 and an opaque image of 300 by 300 placed at (60, 400), the
  particle of the cell (0, 0) is alive and its centre is on the screen (390 by 844, which
  holds the image), yet the shader returns the transparent colour at that very centre: every
  candidate of the window around the reverse-wind estimate lies above the image.
\<close>

theorem live_particle_not_drawn:
  "0 \<le> (1 / 2 :: real) \<and> 1 / 2 \<le> rampEnd
 \<and> lifeRatio (DustSnapGL_uniforms (1 / 2) layout300 3 0 square) 11
      (cellHash (DustSnapGL_uniforms (1 / 2) layout300 3 0 square) (0, 0)) < 1
 \<and> col_a (whiteImage (cellCenter (DustSnapGL_uniforms (1 / 2) layout300 3 0 square) (0, 0))) > 0.1
 \<and> 0 \<le> fst (particlePos (DustSnapGL_uniforms (1 / 2) layout300 3 0 square) 11 (0, 0))
 \<and> fst (particlePos (DustSnapGL_uniforms (1 / 2) layout300 3 0 square) 11 (0, 0)) < 390
 \<and> 0 \<le> snd (particlePos (DustSnapGL_uniforms (1 / 2) layout300 3 0 square) 11 (0, 0))
 \<and> snd (particlePos (DustSnapGL_uniforms (1 / 2) layout300 3 0 square) 11 (0, 0)) < 844
 \<and> DUST_SHADER_main whiteImage (DustSnapGL_uniforms (1 / 2) layout300 3 0 square)
      (particlePos (DustSnapGL_uniforms (1 / 2) layout300 3 0 square) 11 (0, 0)) = transparent"
proof -
  let ?u = "DustSnapGL_uniforms (1 / 2) layout300 3 0 square"
  let ?P = "particlePos ?u 11 (0, 0)"
  have lay: "layout_x layout300 = 60" "layout_y layout300 = 400"
    "layout_width layout300 = 300" "layout_height layout300 = 300"
    by (simp_all add: layout300_def)
  note cfg = DustSnapGL_uniforms_simps lay
  define s where "s = sin (11 / 20 :: real)"
  define c where "c = cos (77 / 200 :: real)"
  have sb: "- 1 \<le> s" "s \<le> 1" by (simp_all add: s_def)
  have cb: "- 1 \<le> c" "c \<le> 1" by (simp_all add: c_def)
  have h0: "cellHash ?u (0, 0) = 0"
    by (simp add: cellHash_def hash_def add2_def dot2_def cfg)
  have lr: "lifeRatio ?u 11 0 = 11 / 180"
    by (simp add: lifeRatio_def maxLife_def cfg)
  have P: "?P = (60 + 3 / 2 + (- 462 / 5 + 45 * (36 / 47) + s * 25 / 2 - 847 / 200) * (11 / 18),
                 400 + 3 / 2 + (- 330 + c * 25 - 121 / 40) * (11 / 18))"
    by (simp add: particlePos_def h0 lr Let_def movement_def startEase_def cellCenter_def
        add2_def scale2_def cfg s_def c_def)
  have Px: "0 \<le> fst ?P" "fst ?P < 320" using sb by (simp_all add: P algebra_simps)
  have Py: "0 \<le> snd ?P" "snd ?P < 220" using cb by (simp_all add: P algebra_simps)
  have out: "outOfImage ?u (imgLocalPos ?u (baseImgPos ?u ?P) ij)"
    if "ij \<in> set (window SEARCH_RAD SEARCH_RAD)" for ij
  proof -
    have "snd ij \<le> 4" using that by (auto simp: set_window SEARCH_RAD_def)
    then have "real_of_int (snd ij) \<le> 4" by simp
    then have "snd (imgLocalPos ?u (baseImgPos ?u ?P) ij) < 0"
      using Py by (simp add: imgLocalPos_def baseImgPos_def add2_def sub2_def scale2_def
          Let_def cfg)
    then show ?thesis by (simp add: outOfImage_def)
  qed
  have main: "DUST_SHADER_main whiteImage ?u ?P = transparent"
    by (simp add: DUST_SHADER_main_def Let_def cfg scan_all_None candidate_outOfImage out
        del: One_nat_def)
  have re: "rampEnd = 1" by (simp add: rampEnd_def DURATION_MS_def)
  show ?thesis
    using Px Py main by (simp add: h0 lr re whiteImage_def)
qed

text \<open>
  C10 as amended. DustSnapGL ramps \<open>time\<close> from 0 to \<open>DURATION_MS / 1000 = 1\<close>, so
  \<open>t = time * timeScale\<close> stays at or below 22; with \<open>lifetimeMin = 180\<close>,
  \<open>fadeStart = 0.92\<close> and \<open>maxTime = 250\<close> the \<open>lifeRatio\<close> of every cell stays below
  0.13 at every time of the run. So no particle expires, the fade branch is never taken (the
  fade is 1) and the early exit on \<open>maxTime\<close> is never taken. At every pixel the shader
  returns the unfaded source colour of the first candidate of its window that lies inside the
  image, whose particle covers the pixel and whose source alpha is above 0.1; the pixel is
  transparent exactly when the window holds no such candidate. In particular a pixel that a
  particle covers is drawn whenever some offset of the window leads to the particle's cell.
  Besides leaving the screen and the unmounting of the component, a particle therefore stops
  being drawn when the window around the reverse-wind estimate no longer reaches its cell at
  the pixels it covers, or when an earlier candidate of the window covers the same pixel.
\<close>

theorem real_run_invariants:
  assumes "0 \<le> tm" and "tm \<le> rampEnd"
    and "u = DustSnapGL_uniforms tm layout pieceSize sd shape"
    and "t = time u * timeScale u"
    and "lr = lifeRatio u t (cellHash u cellId)"
    and "screenCoord = add2 fragCoord (canvasOffset u)"
    and "base = baseImgPos u fragCoord"
  shows "rampEnd = 1 \<and> t \<le> 22 \<and> lr < 0.13 \<and> \<not> lr \<ge> 1
   \<and> \<not> lr > fadeStart u \<and> fade u lr = 1 \<and> \<not> t > maxTime u
   \<and> particle img u sc t cellId
      = (if inside u (sub2 sc (particlePos u t cellId))
            \<and> col_a (img (cellCenter u cellId)) > 0.1
         then Some (img (cellCenter u cellId))
         else None)
   \<and> DUST_SHADER_main img u fragCoord
      = (case find (coveringCandidate img u screenCoord t base) (window SEARCH_RAD SEARCH_RAD) of
           None \<Rightarrow> transparent
         | Some ij \<Rightarrow> img (cellCenter u (cellIdOf u (imgLocalPos u base ij))))
   \<and> (col_a (DUST_SHADER_main img u fragCoord) > 0.1)
      = (\<exists>ij \<in> set (window SEARCH_RAD SEARCH_RAD). coveringCandidate img u screenCoord t base ij)
   \<and> (ij \<in> set (window SEARCH_RAD SEARCH_RAD)
        \<and> \<not> outOfImage u (imgLocalPos u base ij)
        \<and> cellIdOf u (imgLocalPos u base ij) = cellId
        \<and> inside u (sub2 screenCoord (particlePos u t cellId))
        \<and> col_a (img (cellCenter u cellId)) > 0.1
      \<longrightarrow> col_a (DUST_SHADER_main img u fragCoord) > 0.1)"
proof -
  let ?W = "window SEARCH_RAD SEARCH_RAD"
  let ?C = "coveringCandidate img u screenCoord t base"
  have cfg: "lifetimeMin u = 180" "lifetimeRange u = 100" "fadeStart u = 0.92"
    "time u = tm" "timeScale u = 22" "maxTime u = 250"
    unfolding assms(3) by (simp_all add: DustSnapGL_uniforms_simps)
  have re: "rampEnd = 1" by (simp add: rampEnd_def DURATION_MS_def)
  have t: "0 \<le> t" "t \<le> 22" using assms(1,2,4) re by (simp_all add: cfg)
  have young: "lifeRatio u t (cellHash u c) < 0.13" for c
  proof -
    have "0 \<le> cellHash u c" using cellHash_range by simp
    then have "180 \<le> maxLife u (cellHash u c)" by (simp add: maxLife_def cfg)
    then have "lifeRatio u t (cellHash u c) \<le> 22 / 180"
      unfolding lifeRatio_def using t by (intro frac_le) simp_all
    then show ?thesis by simp
  qed
  have full: "fade u (lifeRatio u t (cellHash u c)) = 1" for c
    using young [of c] by (simp add: fade_def Let_def cfg)
  have lr: "lr < 0.13" unfolding assms(5) by (rule young)
  have fd: "fade u lr = 1" unfolding assms(5) by (rule full)
  have part: "particle img u sc t c
      = (if inside u (sub2 sc (particlePos u t c)) \<and> col_a (img (cellCenter u c)) > 0.1
         then Some (img (cellCenter u c)) else None)" for c
    using young [of c] full [of c] by (simp add: particle_def Let_def)
  have body: "candidate img u screenCoord t base c
      = (if ?C c then Some (img (cellCenter u (cellIdOf u (imgLocalPos u base c)))) else None)"
    for c
    using young [of "cellIdOf u (imgLocalPos u base c)"]
      full [of "cellIdOf u (imgLocalPos u base c)"]
    by (simp add: candidate_def particle_def coveringCandidate_def Let_def)
  have sc: "scan (candidate img u screenCoord t base) ?W
      = (case find ?C ?W of None \<Rightarrow> transparent
         | Some c \<Rightarrow> img (cellCenter u (cellIdOf u (imgLocalPos u base c))))"
    by (rule scan_first_match) (rule body)
  have main: "DUST_SHADER_main img u fragCoord
      = (case find ?C ?W of None \<Rightarrow> transparent
         | Some c \<Rightarrow> img (cellCenter u (cellIdOf u (imgLocalPos u base c))))"
  proof -
    have tt: "time u * timeScale u = t" by (simp add: assms(4))
    have nocut: "\<not> t > maxTime u" using t(2) by (simp add: cfg)
    show ?thesis
      unfolding DUST_SHADER_main_def Let_def tt assms(6) [symmetric] assms(7) [symmetric]
      using sc nocut by simp
  qed
  have shown: "(col_a (DUST_SHADER_main img u fragCoord) > 0.1) = (\<exists>c \<in> set ?W. ?C c)"
  proof (cases "find ?C ?W")
    case None
    then have "\<not> (\<exists>c \<in> set ?W. ?C c)" using find_None_none [of ?C ?W] by blast
    then show ?thesis using None by (simp add: main transparent_def)
  next
    case (Some c)
    then have c: "?C c" "c \<in> set ?W" using find_Some_holds [of ?C ?W c] by simp_all
    then have "col_a (img (cellCenter u (cellIdOf u (imgLocalPos u base c)))) > 0.1"
      by (simp add: coveringCandidate_def Let_def)
    then show ?thesis using Some c by (auto simp: main)
  qed
  have reach: "col_a (DUST_SHADER_main img u fragCoord) > 0.1"
    if "ij \<in> set ?W" "\<not> outOfImage u (imgLocalPos u base ij)"
      "cellIdOf u (imgLocalPos u base ij) = cellId"
      "inside u (sub2 screenCoord (particlePos u t cellId))"
      "col_a (img (cellCenter u cellId)) > 0.1"
  proof -
    have "?C ij" using that by (simp add: coveringCandidate_def Let_def)
    then show ?thesis using that(1) shown by blast
  qed
  show ?thesis
    using re t lr fd part main shown reach by (simp add: cfg)
qed

theorem real_run_invariants_witness:
  "0 \<le> (1 / 220 :: real) \<and> 1 / 220 \<le> rampEnd \<and> rampEnd = 1
 \<and> time (DustSnapGL_uniforms (1 / 220) layout300 3 0 square)
      * timeScale (DustSnapGL_uniforms (1 / 220) layout300 3 0 square) = 1 / 10
 \<and> lifeRatio (DustSnapGL_uniforms (1 / 220) layout300 3 0 square) (1 / 10)
      (cellHash (DustSnapGL_uniforms (1 / 220) layout300 3 0 square) (0, 0)) < 0.13
 \<and> fade (DustSnapGL_uniforms (1 / 220) layout300 3 0 square)
      (lifeRatio (DustSnapGL_uniforms (1 / 220) layout300 3 0 square) (1 / 10)
        (cellHash (DustSnapGL_uniforms (1 / 220) layout300 3 0 square) (0, 0))) = 1
 \<and> (0, 0) \<in> set (window SEARCH_RAD SEARCH_RAD)
 \<and> \<not> outOfImage (DustSnapGL_uniforms (1 / 220) layout300 3 0 square)
      (imgLocalPos (DustSnapGL_uniforms (1 / 220) layout300 3 0 square)
        (baseImgPos (DustSnapGL_uniforms (1 / 220) layout300 3 0 square)
          (particlePos (DustSnapGL_uniforms (1 / 220) layout300 3 0 square) (1 / 10) (0, 0)))
        (0, 0))
 \<and> cellIdOf (DustSnapGL_uniforms (1 / 220) layout300 3 0 square)
      (imgLocalPos (DustSnapGL_uniforms (1 / 220) layout300 3 0 square)
        (baseImgPos (DustSnapGL_uniforms (1 / 220) layout300 3 0 square)
          (particlePos (DustSnapGL_uniforms (1 / 220) layout300 3 0 square) (1 / 10) (0, 0)))
        (0, 0)) = (0, 0)
 \<and> col_a (DUST_SHADER_main whiteImage (DustSnapGL_uniforms (1 / 220) layout300 3 0 square)
      (particlePos (DustSnapGL_uniforms (1 / 220) layout300 3 0 square) (1 / 10) (0, 0))) > 0.1"
proof -
  let ?u = "DustSnapGL_uniforms (1 / 220) layout300 3 0 square"
  let ?P = "particlePos ?u (1 / 10) (0, 0)"
  let ?B = "baseImgPos ?u ?P"
  have lay: "layout_x layout300 = 60" "layout_y layout300 = 400"
    "layout_width layout300 = 300" "layout_height layout300 = 300"
    by (simp_all add: layout300_def)
  note cfg = DustSnapGL_uniforms_simps lay
  define s where "s = sin (1 / 200 :: real)"
  define c where "c = cos (7 / 2000 :: real)"
  have sb: "- 1 \<le> s" "s \<le> 1" by (simp_all add: s_def)
  have cb: "- 1 \<le> c" "c \<le> 1" by (simp_all add: c_def)
  have re: "rampEnd = 1" by (simp add: rampEnd_def DURATION_MS_def)
  have tt: "time ?u * timeScale ?u = 1 / 10" by (simp add: cfg)
  have h0: "cellHash ?u (0, 0) = 0"
    by (simp add: cellHash_def hash_def add2_def dot2_def cfg)
  have lr: "lifeRatio ?u (1 / 10) 0 = 1 / 1800"
    by (simp add: lifeRatio_def maxLife_def cfg)
  have P: "?P = (60 + 3 / 2 + (- 21 / 25 + 45 * (360 / 361) + s * 25 / 2 - 7 / 20000) * (1 / 180),
                 400 + 3 / 2 + (- 3 + c * 25 - 1 / 4000) * (1 / 180))"
    by (simp add: particlePos_def h0 lr Let_def movement_def startEase_def cellCenter_def
        add2_def scale2_def cfg s_def c_def)
  have B: "baseImgPos ?u q = (fst q + 3 / 5 - 60, snd q - 400)" for q
    by (simp add: baseImgPos_def Let_def add2_def sub2_def cfg)
  have Bx: "0 \<le> fst ?B" "fst ?B < 3" using sb by (simp_all add: B P algebra_simps)
  have By: "0 \<le> snd ?B" "snd ?B < 3" using cb by (simp_all add: B P algebra_simps)
  have loc: "imgLocalPos ?u ?B (0, 0) = ?B"
    by (simp add: imgLocalPos_def add2_def scale2_def)
  have inimg: "\<not> outOfImage ?u (imgLocalPos ?u ?B (0, 0))"
    using Bx By by (simp add: loc outOfImage_def cfg)
  have fl: "\<lfloor>x * (1 / 3)\<rfloor> = 0" if "0 \<le> x" "x < 3" for x :: real
    using that by (simp add: floor_eq_iff)
  have cell: "cellIdOf ?u (imgLocalPos ?u ?B (0, 0)) = (0, 0)"
    using fl [OF Bx] fl [OF By] by (simp add: loc cellIdOf_def Let_def cfg)
  have ins: "inside ?u (sub2 (add2 ?P (canvasOffset ?u)) (particlePos ?u (1 / 10) (0, 0)))"
    by (simp add: inside_def Let_def sub2_def add2_def cfg)
  have inW: "(0, 0) \<in> set (window SEARCH_RAD SEARCH_RAD)"
    by (simp add: set_window SEARCH_RAD_def)
  have op: "col_a (whiteImage (cellCenter ?u (0, 0))) > 0.1" by (simp add: whiteImage_def)
  have run: "(1 / 220 :: real) \<le> rampEnd" by (simp add: re)
  have pos: "0 \<le> (1 / 220 :: real)" by simp
  note R = real_run_invariants [where tm = "1 / 220" and u = ?u and layout = layout300
      and pieceSize = 3 and sd = 0 and shape = square and t = "time ?u * timeScale ?u"
      and lr = "lifeRatio ?u (time ?u * timeScale ?u) (cellHash ?u (0, 0))"
      and cellId = "(0, 0)" and img = whiteImage and fragCoord = ?P
      and screenCoord = "add2 ?P (canvasOffset ?u)" and base = ?B and ij = "(0, 0)",
      OF pos run refl refl refl refl refl, unfolded tt]
  note young = R [THEN conjunct2, THEN conjunct2, THEN conjunct1]
  note full = R [THEN conjunct2, THEN conjunct2, THEN conjunct2, THEN conjunct2,
      THEN conjunct2, THEN conjunct1]
  note reach = R [THEN conjunct2, THEN conjunct2, THEN conjunct2, THEN conjunct2,
      THEN conjunct2, THEN conjunct2, THEN conjunct2, THEN conjunct2, THEN conjunct2,
      THEN conjunct2]
  have drawn: "col_a (DUST_SHADER_main whiteImage ?u ?P) > 0.1"
    by (rule mp [OF reach]) (intro conjI inW inimg cell ins op)
  show ?thesis
    by (intro conjI pos run re tt young full inW inimg cell drawn)
qed

end
